theory Spec2Isabelle
  imports Main "HOL-Library.AList"
begin

section \<open>Python strings\<close>

text \<open>
  Strings are byte lists. The helpers below are the \<^verbatim>\<open>str\<close> methods the source calls:
  \<^verbatim>\<open>startswith\<close>, \<^verbatim>\<open>split\<close> on a one-character separator, \<^verbatim>\<open>join\<close>,
  \<^verbatim>\<open>lower\<close>, \<^verbatim>\<open>strip\<close>, the substring test \<^verbatim>\<open>in\<close> and \<^verbatim>\<open>str\<close> of a
  non-negative integer. \<^verbatim>\<open>lower\<close> and \<^verbatim>\<open>strip\<close> act on the ASCII range only.
\<close>

definition startswith :: "string \<Rightarrow> string \<Rightarrow> bool" where
  "startswith s p = (take (length p) s = p)"

fun str_split :: "char \<Rightarrow> string \<Rightarrow> string list" where
  "str_split c [] = [[]]"
| "str_split c (x # xs) =
     (if x = c then [] # str_split c xs
      else (case str_split c xs of [] \<Rightarrow> [[x]] | l # ls \<Rightarrow> (x # l) # ls))"

fun str_join :: "string \<Rightarrow> string list \<Rightarrow> string" where
  "str_join sep [] = []"
| "str_join sep [x] = x"
| "str_join sep (x # y # ys) = x @ sep @ str_join sep (y # ys)"

definition lower_char :: "char \<Rightarrow> char" where
  "lower_char c =
     (let n = (of_char c :: nat) in if 65 \<le> n \<and> n \<le> 90 then char_of (n + 32) else c)"

definition str_lower :: "string \<Rightarrow> string" where
  "str_lower s = map lower_char s"

fun str_contains :: "string \<Rightarrow> string \<Rightarrow> bool" where
  "str_contains [] sub = (sub = [])"
| "str_contains (x # xs) sub = (startswith (x # xs) sub \<or> str_contains xs sub)"

definition is_space :: "char \<Rightarrow> bool" where
  "is_space c = (let n = (of_char c :: nat) in n = 32 \<or> (9 \<le> n \<and> n \<le> 13) \<or> (28 \<le> n \<and> n \<le> 31))"

definition str_strip :: "string \<Rightarrow> string" where
  "str_strip s = rev (dropWhile is_space (rev (dropWhile is_space s)))"

fun str_nat :: "nat \<Rightarrow> string" where
  "str_nat n =
     (if n < 10 then [''0123456789'' ! n]
      else str_nat (n div 10) @ [''0123456789'' ! (n mod 10)])"

section \<open>Result models (models.py)\<close>

record CommitInfo =
  sha :: string
  short_sha :: string
  message :: string
  author :: string
  author_email :: string
  timestamp :: int

record CommitList =
  commits :: "CommitInfo list"
  total_count :: nat
  branch :: string

record FileChange =
  filename :: string
  status :: string
  additions :: nat
  deletions :: nat
  patch :: "string option"

record CommitDiff =
  from_commit :: string
  to_commit :: string
  files :: "FileChange list"
  total_additions :: nat
  total_deletions :: nat
  summary :: string

record BranchInfo =
  name :: string
  is_current :: bool
  last_commit_sha :: string
  last_commit_message :: string

record RepoStatus =
  is_initialized :: bool
  current_branch :: "string option"
  has_changes :: bool
  staged_files :: "string list"
  modified_files :: "string list"
  untracked_files :: "string list"

section \<open>The version-control backend\<close>

text \<open>
  The source drives GitPython. The backend is modelled by the state it keeps on disk and
  by the calls the source makes. A directory holds a working tree (path and content of
  each file) and, when it is a repository, the object store, the local branches, HEAD and
  the index. Histories are linear: a commit has at most one parent. Ignore rules, tags,
  remotes and abbreviated object ids are outside the model. Object ids are opaque to the
  source; the model numbers commits in creation order and writes the number as forty
  hexadecimal digits.
\<close>

datatype exn =
    ValueError string
  | InvalidGitRepositoryError
  | NoSuchPathError
  | TypeError
  | BadName string
  | GitCommandError string
  | OSError string
  | IndexError
  | FileNotFoundError string
  | ValidationError

type_synonym tree = "(string \<times> string) list"

record git_commit =
  hexsha :: string
  commit_message :: string
  commit_tree :: tree
  parent :: "string option"
  actor_name :: string
  actor_email :: string
  committed_date :: int

datatype head_ref = Attached string | Detached string

record repository =
  objects :: "git_commit list"
  heads :: "(string \<times> string) list"
  HEAD :: head_ref
  index :: tree

datatype node = NoPath | Dir tree "repository option"

text \<open>
  An entry of \<^verbatim>\<open>commit.diff(other)\<close>, GitPython's \<^verbatim>\<open>Diff\<close>: the flags and paths
  the source reads, and the field \<^verbatim>\<open>diff\<close>, which is bytes, a string or \<^verbatim>\<open>None\<close>.
\<close>

datatype payload = NoPayload | Bytes string | Str string

record diff_entry =
  new_file :: bool
  deleted_file :: bool
  renamed :: bool
  diff_field :: payload
  a_path :: "string option"
  b_path :: "string option"

text \<open>
  The world is the file system, one node per path, what the backend reads from its
  environment when it writes a commit (the configured identity and the time), and the
  backend's tree comparison, which the model leaves open: any function from two commits to
  a list of entries.
\<close>

record world =
  nodes :: "string \<Rightarrow> node"
  user_name :: string
  user_email :: string
  clock :: int
  commit_diff :: "git_commit \<Rightarrow> git_commit \<Rightarrow> diff_entry list"

text \<open>
  \<^verbatim>\<open>Repo(path)\<close>: GitPython raises \<^verbatim>\<open>NoSuchPathError\<close> when the path does not
  exist and \<^verbatim>\<open>InvalidGitRepositoryError\<close> when it exists and is not a repository.
\<close>

definition Repo :: "world \<Rightarrow> string \<Rightarrow> exn + tree \<times> repository" where
  "Repo w p =
     (case nodes w p of
        NoPath \<Rightarrow> Inl NoSuchPathError
      | Dir wt g \<Rightarrow> (case g of None \<Rightarrow> Inl InvalidGitRepositoryError | Some r \<Rightarrow> Inr (wt, r)))"

definition store :: "world \<Rightarrow> string \<Rightarrow> tree \<Rightarrow> repository \<Rightarrow> world" where
  "store w p wt r = w\<lparr>nodes := (nodes w)(p := Dir wt (Some r))\<rparr>"

definition mkdir :: "world \<Rightarrow> string \<Rightarrow> world" where
  "mkdir w p = (case nodes w p of NoPath \<Rightarrow> w\<lparr>nodes := (nodes w)(p := Dir [] None)\<rparr> | Dir wt g \<Rightarrow> w)"

definition empty_repository :: repository where
  "empty_repository = \<lparr>objects = [], heads = [], HEAD = Attached ''master'', index = []\<rparr>"

text \<open>\<^verbatim>\<open>Repo.init(path)\<close> creates the directory when it is missing and leaves an existing repository as it is.\<close>

definition Repo_init :: "world \<Rightarrow> string \<Rightarrow> world" where
  "Repo_init w p =
     (case nodes w p of
        NoPath \<Rightarrow> w\<lparr>nodes := (nodes w)(p := Dir [] (Some empty_repository))\<rparr>
      | Dir wt g \<Rightarrow>
          (case g of
             None \<Rightarrow> w\<lparr>nodes := (nodes w)(p := Dir wt (Some empty_repository))\<rparr>
           | Some r \<Rightarrow> w))"

definition lookup_commit :: "repository \<Rightarrow> string \<Rightarrow> git_commit option" where
  "lookup_commit r s = find (\<lambda>c. hexsha c = s) (objects r)"

definition head_sha :: "repository \<Rightarrow> string option" where
  "head_sha r = (case HEAD r of Attached b \<Rightarrow> map_of (heads r) b | Detached s \<Rightarrow> Some s)"

definition head_commit :: "repository \<Rightarrow> git_commit option" where
  "head_commit r = (case head_sha r of None \<Rightarrow> None | Some s \<Rightarrow> lookup_commit r s)"

text \<open>
  \<^verbatim>\<open>repo.rev_parse(name)\<close> and \<^verbatim>\<open>repo.commit(name)\<close>: the symbolic name HEAD, a full
  object id or a branch name; \<^verbatim>\<open>BadName\<close> otherwise, and for HEAD of a repository
  without commits.
\<close>

definition rev_parse :: "repository \<Rightarrow> string \<Rightarrow> exn + git_commit" where
  "rev_parse r nm =
     (if nm = ''HEAD'' then (case head_commit r of None \<Rightarrow> Inl (BadName nm) | Some c \<Rightarrow> Inr c)
      else
        (case lookup_commit r nm of
           Some c \<Rightarrow> Inr c
         | None \<Rightarrow>
             (case map_of (heads r) nm of
                None \<Rightarrow> Inl (BadName nm)
              | Some s \<Rightarrow> (case lookup_commit r s of None \<Rightarrow> Inl (BadName nm) | Some c \<Rightarrow> Inr c))))"

text \<open>\<^verbatim>\<open>repo.active_branch\<close> raises \<^verbatim>\<open>TypeError\<close> when HEAD is detached.\<close>

definition active_branch :: "repository \<Rightarrow> exn + string" where
  "active_branch r = (case HEAD r of Attached b \<Rightarrow> Inr b | Detached s \<Rightarrow> Inl TypeError)"

definition changed_paths :: "tree \<Rightarrow> tree \<Rightarrow> string list" where
  "changed_paths a b = filter (\<lambda>p. map_of a p \<noteq> map_of b p) (remdups (map fst a @ map fst b))"

text \<open>
  \<^verbatim>\<open>repo.index.diff("HEAD")\<close> resolves the name first, so it raises \<^verbatim>\<open>BadName\<close> in
  a repository without commits; the model keeps the paths (\<^verbatim>\<open>a_path\<close>) of its entries.
\<close>

definition index_diff_HEAD :: "repository \<Rightarrow> exn + string list" where
  "index_diff_HEAD r =
     (case rev_parse r ''HEAD'' of
        Inl e \<Rightarrow> Inl e
      | Inr c \<Rightarrow> Inr (changed_paths (commit_tree c) (index r)))"

text \<open>\<^verbatim>\<open>repo.index.diff(None)\<close>: tracked paths whose file differs from the index or is gone.\<close>

definition index_diff_None :: "tree \<Rightarrow> repository \<Rightarrow> string list" where
  "index_diff_None wt r =
     filter (\<lambda>p. map_of wt p \<noteq> map_of (index r) p) (remdups (map fst (index r)))"

definition repo_untracked_files :: "tree \<Rightarrow> repository \<Rightarrow> string list" where
  "repo_untracked_files wt r = filter (\<lambda>p. map_of (index r) p = None) (map fst wt)"

text \<open>\<^verbatim>\<open>repo.git.add(A=True)\<close>: the index becomes the working tree.\<close>

definition git_add_A :: "tree \<Rightarrow> repository \<Rightarrow> repository" where
  "git_add_A wt r = r\<lparr>index := wt\<rparr>"

text \<open>\<^verbatim>\<open>repo.index.add(paths)\<close> stages each path from the working tree, and fails on a missing file.\<close>

fun index_add :: "string list \<Rightarrow> tree \<Rightarrow> repository \<Rightarrow> exn + repository" where
  "index_add [] wt r = Inr r"
| "index_add (p # ps) wt r =
     (case map_of wt p of
        None \<Rightarrow> Inl (FileNotFoundError p)
      | Some v \<Rightarrow> index_add ps wt (r\<lparr>index := AList.update p v (index r)\<rparr>))"

fun hex_pad :: "nat \<Rightarrow> nat \<Rightarrow> string" where
  "hex_pad 0 n = []"
| "hex_pad (Suc k) n = hex_pad k (n div 16) @ [''0123456789abcdef'' ! (n mod 16)]"

definition fresh_sha :: "repository \<Rightarrow> string" where
  "fresh_sha r = hex_pad 40 (length (objects r))"

definition set_head_target :: "string \<Rightarrow> repository \<Rightarrow> repository" where
  "set_head_target s r =
     (case HEAD r of
        Attached b \<Rightarrow> r\<lparr>heads := AList.update b s (heads r)\<rparr>
      | Detached old \<Rightarrow> r\<lparr>HEAD := Detached s\<rparr>)"

text \<open>
  \<^verbatim>\<open>repo.index.commit(message)\<close> writes a commit of the index on top of the current
  head commit, if there is one, and moves the current branch (or a detached HEAD) to it.
  It has no failure in the model; the sum type keeps the shape of the source, which
  guards one call of it with \<^verbatim>\<open>try\<close>.
\<close>

definition index_commit :: "string \<Rightarrow> world \<Rightarrow> repository \<Rightarrow> exn + git_commit \<times> repository" where
  "index_commit msg w r =
     (let c = \<lparr>hexsha = fresh_sha r, commit_message = msg, commit_tree = index r,
                parent = map_option hexsha (head_commit r),
                actor_name = user_name w, actor_email = user_email w,
                committed_date = clock w\<rparr>
      in Inr (c, set_head_target (hexsha c) (r\<lparr>objects := objects r @ [c]\<rparr>)))"

fun history :: "nat \<Rightarrow> repository \<Rightarrow> string \<Rightarrow> git_commit list" where
  "history 0 r s = []"
| "history (Suc k) r s =
     (case lookup_commit r s of
        None \<Rightarrow> []
      | Some c \<Rightarrow> c # (case parent c of None \<Rightarrow> [] | Some p \<Rightarrow> history k r p))"

text \<open>
  \<^verbatim>\<open>repo.iter_commits(rev, max_count=n)\<close> runs \<^verbatim>\<open>git rev-list --max-count=n rev\<close>:
  the history of the revision, newest first. A revision git cannot resolve is a
  \<^verbatim>\<open>GitCommandError\<close>; a negative count is no limit.
\<close>

definition iter_commits :: "repository \<Rightarrow> string \<Rightarrow> int option \<Rightarrow> exn + git_commit list" where
  "iter_commits r rv max_count =
     (case rev_parse r rv of
        Inl e \<Rightarrow> Inl (GitCommandError (''bad revision '' @ rv))
      | Inr c \<Rightarrow>
          (let h = history (length (objects r)) r (hexsha c) in
           Inr (case max_count of
                  None \<Rightarrow> h
                | Some n \<Rightarrow> if n < 0 then h else take (nat n) h)))"

text \<open>
  \<^verbatim>\<open>repo.git.reset(flag, target)\<close>: every mode moves the current branch to the target;
  \<^verbatim>\<open>--mixed\<close> also resets the index, \<^verbatim>\<open>--hard\<close> the index and the tracked files
  (untracked files that the target does not hold stay).
\<close>

definition git_reset :: "string \<Rightarrow> string \<Rightarrow> tree \<Rightarrow> repository \<Rightarrow> exn + tree \<times> repository" where
  "git_reset flag target wt r =
     (case rev_parse r target of
        Inl e \<Rightarrow> Inl (GitCommandError (''unknown revision '' @ target))
      | Inr c \<Rightarrow>
          (let r1 = set_head_target (hexsha c) r in
           if flag = ''--soft'' then Inr (wt, r1)
           else if flag = ''--mixed'' then Inr (wt, r1\<lparr>index := commit_tree c\<rparr>)
           else if flag = ''--hard'' then
             Inr (commit_tree c @
                    filter (\<lambda>(p, v). map_of (index r) p = None \<and> map_of (commit_tree c) p = None) wt,
                  r1\<lparr>index := commit_tree c\<rparr>)
           else Inl (GitCommandError (''unknown option '' @ flag))))"

text \<open>
  \<^verbatim>\<open>repo.create_head(name, start)\<close> (no force): an existing branch is an error unless
  it already points at the start commit.
\<close>

definition create_head :: "string \<Rightarrow> string \<Rightarrow> repository \<Rightarrow> exn + repository" where
  "create_head nm start r =
     (case rev_parse r start of
        Inl e \<Rightarrow> Inl e
      | Inr c \<Rightarrow>
          (case map_of (heads r) nm of
             None \<Rightarrow> Inr (r\<lparr>heads := heads r @ [(nm, hexsha c)]\<rparr>)
           | Some s \<Rightarrow>
               if s = hexsha c then Inr r
               else Inl (OSError (''Reference does already exist: '' @ nm))))"

text \<open>
  \<^verbatim>\<open>branch.checkout()\<close>: git refuses when a path that differs between the two commits
  carries a local change; otherwise those paths are rewritten in the index and in the
  working tree, and HEAD is attached to the branch.
\<close>

definition checkout :: "string \<Rightarrow> tree \<Rightarrow> repository \<Rightarrow> exn + tree \<times> repository" where
  "checkout nm wt r =
     (case map_of (heads r) nm of
        None \<Rightarrow> Inl (GitCommandError (''pathspec did not match: '' @ nm))
      | Some s \<Rightarrow>
          (case lookup_commit r s of
             None \<Rightarrow> Inl (GitCommandError (''bad object '' @ s))
           | Some c \<Rightarrow>
               (let cur = (case head_commit r of None \<Rightarrow> [] | Some h \<Rightarrow> commit_tree h);
                    tgt = commit_tree c;
                    dirty = filter (\<lambda>p. map_of (index r) p \<noteq> map_of cur p \<or> map_of wt p \<noteq> map_of cur p)
                              (changed_paths cur tgt)
                in if dirty \<noteq> [] then Inl (GitCommandError (''local changes would be overwritten'' ))
                   else
                     (let keep = (\<lambda>t. filter (\<lambda>(p, v). map_of cur p = map_of tgt p) t);
                          new = filter (\<lambda>(p, v). map_of cur p \<noteq> Some v) tgt
                      in Inr (keep wt @ new, r\<lparr>HEAD := Attached nm, index := keep (index r) @ new\<rparr>)))))"

section \<open>GitManager (git_utils.py)\<close>

text \<open>
  A manager is the repository path and whether the handle \<^verbatim>\<open>_repo\<close> is set. Every
  method returns its result or the exception it raises, the manager and the world.
  A method that reads through the handle gets the working tree and the repository of the
  directory as they are at that moment.
\<close>

record manager =
  repo_path :: string
  handle :: bool

definition GitManager :: "string \<Rightarrow> manager" where
  "GitManager p = \<lparr>repo_path = p, handle = False\<rparr>"

definition repo :: "manager \<Rightarrow> world \<Rightarrow> (exn + tree \<times> repository) \<times> manager" where
  "repo m w =
     (if handle m then (Repo w (repo_path m), m)
      else
        (case Repo w (repo_path m) of
           Inl e \<Rightarrow>
             (if e = InvalidGitRepositoryError
              then (Inl (ValueError (''Git repository not initialized at '' @ repo_path m @
                                      ''. Call initialize_repo first.'')), m)
              else (Inl e, m))
         | Inr x \<Rightarrow> (Inr x, m\<lparr>handle := True\<rparr>)))"

definition GitManager_is_initialized :: "manager \<Rightarrow> world \<Rightarrow> exn + bool" where
  "GitManager_is_initialized m w =
     (case Repo w (repo_path m) of
        Inr x \<Rightarrow> Inr True
      | Inl e \<Rightarrow> if e = InvalidGitRepositoryError then Inr False else Inl e)"

definition readme_text :: string where
  "readme_text = ''# Project\<newline>\<newline>Initialized by GitHub MCP Server.\<newline>''"

text \<open>The body of \<^verbatim>\<open>initialize\<close> under \<^verbatim>\<open>if initial_commit\<close>, on the new repository.\<close>

definition initial_commit_steps ::
  "manager \<Rightarrow> world \<Rightarrow> tree \<Rightarrow> repository \<Rightarrow> (exn + string) \<times> manager \<times> world" where
  "initial_commit_steps m w wt r =
     (let p = repo_path m;
          wt1 = (if map_of wt ''README.md'' = None
                 then AList.update ''README.md'' readme_text wt else wt);
          staged_readme = (if map_of wt ''README.md'' = None
                           then index_add [''README.md''] wt1 r else Inr r)
      in case staged_readme of
           Inl e \<Rightarrow> (Inl e, m, store w p wt1 r)
         | Inr r1 \<Rightarrow>
             (case (if repo_untracked_files wt1 r1 \<noteq> []
                    then index_add (repo_untracked_files wt1 r1) wt1 r1 else Inr r1) of
                Inl e \<Rightarrow> (Inl e, m, store w p wt1 r1)
              | Inr r2 \<Rightarrow>
                  (let has_commits = (case iter_commits r2 ''HEAD'' None of
                                        Inl e \<Rightarrow> False
                                      | Inr cs \<Rightarrow> cs \<noteq> [])
                   in if \<not> has_commits then
                        (case index_commit ''Initial commit'' w r2 of
                           Inr (c, r3) \<Rightarrow>
                             (Inr (''Initialized repository with initial commit: '' @ take 7 (hexsha c)),
                              m, store w p wt1 r3)
                         | Inl e \<Rightarrow>
                             (Inr (''Initialized empty git repository at '' @ p), m, store w p wt1 r2))
                      else (Inr (''Initialized empty git repository at '' @ p), m, store w p wt1 r2))))"

definition initialize :: "bool \<Rightarrow> manager \<Rightarrow> world \<Rightarrow> (exn + string) \<times> manager \<times> world" where
  "initialize initial_commit m w0 =
     (let p = repo_path m;
          w = (if nodes w0 p = NoPath then mkdir w0 p else w0)
      in case GitManager_is_initialized m w of
           Inl e \<Rightarrow> (Inl e, m, w)
         | Inr yes \<Rightarrow>
             if yes then (Inr (''Repository already initialized at '' @ p), m, w)
             else
               (let w1 = Repo_init w p; m1 = m\<lparr>handle := True\<rparr> in
                if initial_commit then
                  (case Repo w1 p of
                     Inl e \<Rightarrow> (Inl e, m1, w1)
                   | Inr (wt, r) \<Rightarrow> initial_commit_steps m1 w1 wt r)
                else (Inr (''Initialized empty git repository at '' @ p), m1, w1)))"

text \<open>
  The branch label of \<^verbatim>\<open>get_status\<close> and \<^verbatim>\<open>list_commits\<close>:
  \<^verbatim>\<open>try: repo.active_branch.name except TypeError: "HEAD (detached)"\<close>.
\<close>

definition branch_label :: "repository \<Rightarrow> exn + string" where
  "branch_label r =
     (case active_branch r of
        Inr b \<Rightarrow> Inr b
      | Inl e \<Rightarrow> if e = TypeError then Inr ''HEAD (detached)'' else Inl e)"

definition get_status :: "manager \<Rightarrow> world \<Rightarrow> (exn + RepoStatus) \<times> manager \<times> world" where
  "get_status m w =
     (case GitManager_is_initialized m w of
        Inl e \<Rightarrow> (Inl e, m, w)
      | Inr yes \<Rightarrow>
          if \<not> yes then
            (Inr \<lparr>is_initialized = False, current_branch = None, has_changes = False,
                  staged_files = [], modified_files = [], untracked_files = []\<rparr>, m, w)
          else
            (case repo m w of
               (Inl e, m1) \<Rightarrow> (Inl e, m1, w)
             | (Inr (wt, r), m1) \<Rightarrow>
                 (case branch_label r of
                    Inl e \<Rightarrow> (Inl e, m1, w)
                  | Inr cur \<Rightarrow>
                      (case index_diff_HEAD r of
                         Inl e \<Rightarrow> (Inl e, m1, w)
                       | Inr staged \<Rightarrow>
                           (let modified = index_diff_None wt r;
                                untracked = repo_untracked_files wt r
                            in (Inr \<lparr>is_initialized = True, current_branch = Some cur,
                                      has_changes = (staged \<noteq> [] \<or> modified \<noteq> [] \<or> untracked \<noteq> []),
                                      staged_files = staged, modified_files = modified,
                                      untracked_files = untracked\<rparr>, m1, w))))))"

definition commit_all :: "string \<Rightarrow> manager \<Rightarrow> world \<Rightarrow> (exn + string) \<times> manager \<times> world" where
  "commit_all msg m w =
     (case repo m w of
        (Inl e, m1) \<Rightarrow> (Inl e, m1, w)
      | (Inr (wt, r), m1) \<Rightarrow>
          (let r1 = git_add_A wt r; w1 = store w (repo_path m1) wt r1 in
           case index_diff_HEAD r1 of
             Inl e \<Rightarrow> (Inl e, m1, w1)
           | Inr staged \<Rightarrow>
               if staged = [] \<and> repo_untracked_files wt r1 = [] then (Inr ''No changes to commit'', m1, w1)
               else
                 (case index_commit msg w1 r1 of
                    Inl e \<Rightarrow> (Inl e, m1, w1)
                  | Inr (c, r2) \<Rightarrow> (Inr (hexsha c), m1, store w1 (repo_path m1) wt r2))))"

definition commit_info :: "git_commit \<Rightarrow> CommitInfo" where
  "commit_info c =
     \<lparr>sha = hexsha c, short_sha = take 7 (hexsha c), message = str_strip (commit_message c),
      author = actor_name c, author_email = actor_email c, timestamp = committed_date c\<rparr>"

definition list_commits ::
  "string \<Rightarrow> int \<Rightarrow> manager \<Rightarrow> world \<Rightarrow> (exn + CommitList) \<times> manager \<times> world" where
  "list_commits br limit m w =
     (case repo m w of
        (Inl e, m1) \<Rightarrow> (Inl e, m1, w)
      | (Inr (wt, r), m1) \<Rightarrow>
          (case iter_commits r br (Some limit) of
             Inl e \<Rightarrow>
               (case e of
                  BadName t \<Rightarrow> (Inl (ValueError (''Branch or ref '' @ [CHR 0x27] @ br @ [CHR 0x27] @ '' not found'')), m1, w)
                | _ \<Rightarrow> (Inl e, m1, w))
           | Inr cs \<Rightarrow>
               (let commit_infos = map commit_info cs in
                case (if br = ''HEAD'' then branch_label r else Inr br) of
                  Inl e \<Rightarrow> (Inl e, m1, w)
                | Inr branch_name \<Rightarrow>
                    (Inr \<lparr>commits = commit_infos, total_count = length commit_infos,
                          branch = branch_name\<rparr>, m1, w))))"

definition valid_modes :: "string list" where
  "valid_modes = [''soft'', ''mixed'', ''hard'']"

definition mode_error :: exn where
  "mode_error = ValueError ''Mode must be one of: ['soft', 'mixed', 'hard']''"

definition rollback :: "string \<Rightarrow> string \<Rightarrow> manager \<Rightarrow> world \<Rightarrow> (exn + string) \<times> manager \<times> world" where
  "rollback commit_sha mode m w =
     (case repo m w of
        (Inl e, m1) \<Rightarrow> (Inl e, m1, w)
      | (Inr (wt, r), m1) \<Rightarrow>
          if mode \<notin> set valid_modes then (Inl mode_error, m1, w)
          else
            (case git_reset (''--'' @ mode) commit_sha wt r of
               Inl e \<Rightarrow>
                 (case e of
                    GitCommandError t \<Rightarrow>
                      (Inl (ValueError (''Failed to reset to '' @ commit_sha @ '': '' @ t)), m1, w)
                  | _ \<Rightarrow> (Inl e, m1, w))
             | Inr (wt1, r1) \<Rightarrow>
                 (let w1 = store w (repo_path m1) wt1 r1 in
                  case head_commit r1 of
                    None \<Rightarrow> (Inl (ValueError ''Reference does not exist''), m1, w1)
                  | Some c \<Rightarrow> (Inr (hexsha c), m1, w1))))"

text \<open>
  The per-file part of \<^verbatim>\<open>compare_commits\<close>. The status follows the source's
  \<^verbatim>\<open>if\<close>/\<^verbatim>\<open>elif\<close> chain. The patch is the decoded \<^verbatim>\<open>diff\<close> field when that field
  is truthy; a non-empty string has no \<^verbatim>\<open>decode\<close>, so the \<^verbatim>\<open>except\<close> branch makes the
  patch \<^verbatim>\<open>None\<close>. Decoding with \<^verbatim>\<open>errors="replace"\<close> keeps the text as its bytes here.
\<close>

definition file_status :: "diff_entry \<Rightarrow> string" where
  "file_status d =
     (if new_file d then ''added''
      else if deleted_file d then ''deleted''
      else if renamed d then ''renamed''
      else ''modified'')"

definition decode_utf8 :: "string \<Rightarrow> string" where
  "decode_utf8 b = b"

definition patch_of :: "diff_entry \<Rightarrow> string option" where
  "patch_of d =
     (case diff_field d of
        NoPayload \<Rightarrow> None
      | Bytes b \<Rightarrow> if b \<noteq> [] then Some (decode_utf8 b) else None
      | Str t \<Rightarrow> None)"

text \<open>The loop over \<^verbatim>\<open>patch.split("\n")\<close> with its two counters.\<close>

fun count_lines :: "string list \<Rightarrow> nat \<times> nat \<Rightarrow> nat \<times> nat" where
  "count_lines [] (a, d) = (a, d)"
| "count_lines (l # ls) (a, d) =
     (if startswith l ''+'' \<and> \<not> startswith l ''+++'' then count_lines ls (a + 1, d)
      else if startswith l ''-'' \<and> \<not> startswith l ''---'' then count_lines ls (a, d + 1)
      else count_lines ls (a, d))"

definition count_patch :: "string option \<Rightarrow> nat \<times> nat" where
  "count_patch pt =
     (case pt of
        None \<Rightarrow> (0, 0)
      | Some t \<Rightarrow> if t \<noteq> [] then count_lines (str_split (CHR 0x0A) t) (0, 0) else (0, 0))"

text \<open>
  \<^verbatim>\<open>diff.b_path or diff.a_path\<close>; the model of \<^verbatim>\<open>FileChange\<close> refuses a filename that
  is not a string.
\<close>

definition filename_of :: "diff_entry \<Rightarrow> string option" where
  "filename_of d =
     (case b_path d of
        None \<Rightarrow> a_path d
      | Some b \<Rightarrow> if b \<noteq> [] then Some b else a_path d)"

fun diff_loop ::
  "diff_entry list \<Rightarrow> FileChange list \<times> nat \<times> nat \<Rightarrow> exn + FileChange list \<times> nat \<times> nat" where
  "diff_loop [] (fs, total_add, total_del) = Inr (fs, total_add, total_del)"
| "diff_loop (d # ds) (fs, total_add, total_del) =
     (let st = file_status d;
          pt = patch_of d;
          (adds, dels) = count_patch pt
      in case filename_of d of
           None \<Rightarrow> Inl ValidationError
         | Some fn \<Rightarrow>
             diff_loop ds
               (fs @ [\<lparr>filename = fn, status = st, additions = adds, deletions = dels, patch = pt\<rparr>],
                total_add + adds, total_del + dels))"

definition summary_text :: "nat \<Rightarrow> nat \<Rightarrow> nat \<Rightarrow> string" where
  "summary_text n a d =
     str_nat n @ '' files changed, '' @ str_nat a @ '' insertions(+), '' @ str_nat d @ '' deletions(-)''"

definition bad_name_text :: "string \<Rightarrow> string" where
  "bad_name_text t = ''Ref '' @ [CHR 0x27] @ t @ [CHR 0x27] @ '' did not resolve to an object''"

definition invalid_sha :: "exn \<Rightarrow> exn" where
  "invalid_sha e =
     (case e of
        BadName t \<Rightarrow> ValueError (''Invalid commit SHA: '' @ bad_name_text t)
      | _ \<Rightarrow> e)"

definition compare_commits ::
  "string \<Rightarrow> string \<Rightarrow> manager \<Rightarrow> world \<Rightarrow> (exn + CommitDiff) \<times> manager \<times> world" where
  "compare_commits from_sha to_sha m w =
     (case repo m w of
        (Inl e, m1) \<Rightarrow> (Inl e, m1, w)
      | (Inr (wt, r), m1) \<Rightarrow>
          (case rev_parse r from_sha of
             Inl e \<Rightarrow> (Inl (invalid_sha e), m1, w)
           | Inr c_from \<Rightarrow>
               (case rev_parse r to_sha of
                  Inl e \<Rightarrow> (Inl (invalid_sha e), m1, w)
                | Inr c_to \<Rightarrow>
                    (case diff_loop (commit_diff w c_from c_to) ([], 0, 0) of
                       Inl e \<Rightarrow> (Inl e, m1, w)
                     | Inr (fs, total_add, total_del) \<Rightarrow>
                         (Inr \<lparr>from_commit = from_sha, to_commit = to_sha, files = fs,
                               total_additions = total_add, total_deletions = total_del,
                               summary = summary_text (length fs) total_add total_del\<rparr>,
                          m1, w)))))"

definition create_branch ::
  "string \<Rightarrow> string option \<Rightarrow> manager \<Rightarrow> world \<Rightarrow> (exn + string) \<times> manager \<times> world" where
  "create_branch branch_name from_ref m w =
     (case repo m w of
        (Inl e, m1) \<Rightarrow> (Inl e, m1, w)
      | (Inr (wt, r), m1) \<Rightarrow>
          (let created =
                 (case from_ref of
                    None \<Rightarrow> create_head branch_name ''HEAD'' r
                  | Some f \<Rightarrow>
                      if f \<noteq> [] then
                        (case rev_parse r f of
                           Inl e \<Rightarrow>
                             (case e of
                                BadName t \<Rightarrow> Inl (ValueError (''Invalid ref '' @ [CHR 0x27] @ f @ [CHR 0x27]))
                              | _ \<Rightarrow> Inl e)
                         | Inr start_point \<Rightarrow> create_head branch_name (hexsha start_point) r)
                      else create_head branch_name ''HEAD'' r)
           in case created of
                Inl e \<Rightarrow> (Inl e, m1, w)
              | Inr r1 \<Rightarrow> (Inr branch_name, m1, store w (repo_path m1) wt r1)))"

definition switch_branch :: "string \<Rightarrow> manager \<Rightarrow> world \<Rightarrow> (exn + string) \<times> manager \<times> world" where
  "switch_branch branch_name m w =
     (case repo m w of
        (Inl e, m1) \<Rightarrow> (Inl e, m1, w)
      | (Inr (wt, r), m1) \<Rightarrow>
          (case map_of (heads r) branch_name of
             None \<Rightarrow>
               (Inl (ValueError (''Branch '' @ [CHR 0x27] @ branch_name @ [CHR 0x27] @ '' not found'')), m1, w)
           | Some s \<Rightarrow>
               (case checkout branch_name wt r of
                  Inl e \<Rightarrow> (Inl e, m1, w)
                | Inr (wt1, r1) \<Rightarrow>
                    (let w1 = store w (repo_path m1) wt1 r1 in
                     case active_branch r1 of
                       Inl e \<Rightarrow> (Inl e, m1, w1)
                     | Inr b \<Rightarrow> (Inr b, m1, w1)))))"

definition first_line :: "string \<Rightarrow> string" where
  "first_line t = (case str_split (CHR 0x0A) t of [] \<Rightarrow> [] | l # ls \<Rightarrow> l)"

fun branch_infos :: "repository \<Rightarrow> string option \<Rightarrow> (string \<times> string) list \<Rightarrow> exn + BranchInfo list" where
  "branch_infos r cur [] = Inr []"
| "branch_infos r cur ((nm, s) # hs) =
     (case lookup_commit r s of
        None \<Rightarrow> Inl (ValueError (''Reference does not point to a commit: '' @ nm))
      | Some c \<Rightarrow>
          (case branch_infos r cur hs of
             Inl e \<Rightarrow> Inl e
           | Inr bs \<Rightarrow>
               Inr (\<lparr>name = nm, is_current = (Some nm = cur), last_commit_sha = take 7 (hexsha c),
                     last_commit_message = first_line (str_strip (commit_message c))\<rparr> # bs)))"

definition list_branches :: "manager \<Rightarrow> world \<Rightarrow> (exn + BranchInfo list) \<times> manager \<times> world" where
  "list_branches m w =
     (case repo m w of
        (Inl e, m1) \<Rightarrow> (Inl e, m1, w)
      | (Inr (wt, r), m1) \<Rightarrow>
          (case (case active_branch r of
                   Inr b \<Rightarrow> Inr (Some b)
                 | Inl e \<Rightarrow> if e = TypeError then Inr None else Inl e) of
             Inl e \<Rightarrow> (Inl e, m1, w)
           | Inr cur \<Rightarrow>
               (case branch_infos r cur (heads r) of
                  Inl e \<Rightarrow> (Inl e, m1, w)
                | Inr bs \<Rightarrow> (Inr bs, m1, w))))"

section \<open>The tools (tools.py)\<close>

text \<open>
  Each tool builds a manager for the call and returns a string. Where the source returns
  \<^verbatim>\<open>model_dump_json\<close> of a result model, the reply holds the model itself.
  \<^verbatim>\<open>default_repo_path\<close> is the path given to \<^verbatim>\<open>register_tools\<close>.
\<close>

datatype reply =
    Text string
  | StatusJson RepoStatus
  | CommitListJson CommitList
  | CommitDiffJson CommitDiff

definition get_manager :: "string option \<Rightarrow> string \<Rightarrow> exn + manager" where
  "get_manager default_repo_path rp =
     (let path = (if rp \<noteq> [] then Some rp else default_repo_path) in
      case path of
        None \<Rightarrow> Inl (ValueError ''repo_path is required (no default configured)'')
      | Some p \<Rightarrow>
          if p = [] then Inl (ValueError ''repo_path is required (no default configured)'')
          else Inr (GitManager p))"

definition text_reply :: "(exn + string) \<times> manager \<times> world \<Rightarrow> (exn + reply) \<times> world" where
  "text_reply out =
     (case out of
        (Inl e, m1, w1) \<Rightarrow> (Inl e, w1)
      | (Inr t, m1, w1) \<Rightarrow> (Inr (Text t), w1))"

definition initialize_repo :: "string \<Rightarrow> bool \<Rightarrow> world \<Rightarrow> (exn + reply) \<times> world" where
  "initialize_repo rp initial_commit w = text_reply (initialize initial_commit (GitManager rp) w)"

definition get_repo_status :: "string \<Rightarrow> world \<Rightarrow> (exn + reply) \<times> world" where
  "get_repo_status rp w =
     (case get_status (GitManager rp) w of
        (Inl e, m1, w1) \<Rightarrow> (Inl e, w1)
      | (Inr st, m1, w1) \<Rightarrow> (Inr (StatusJson st), w1))"

definition commit_all_changes :: "string \<Rightarrow> string \<Rightarrow> world \<Rightarrow> (exn + reply) \<times> world" where
  "commit_all_changes rp msg w =
     (let m = GitManager rp in
      case GitManager_is_initialized m w of
        Inl e \<Rightarrow> (Inl e, w)
      | Inr yes \<Rightarrow>
          if \<not> yes then
            (case initialize False m w of
               (Inl e, m1, w1) \<Rightarrow> (Inl e, w1)
             | (Inr t, m1, w1) \<Rightarrow> text_reply (commit_all msg m1 w1))
          else text_reply (commit_all msg m w))"

definition list_commits_tool ::
  "string option \<Rightarrow> string \<Rightarrow> string \<Rightarrow> int \<Rightarrow> world \<Rightarrow> (exn + reply) \<times> world" where
  "list_commits_tool default_repo_path rp br limit w =
     (case get_manager default_repo_path rp of
        Inl e \<Rightarrow> (Inl e, w)
      | Inr m \<Rightarrow>
          (case list_commits br limit m w of
             (Inl e, m1, w1) \<Rightarrow> (Inl e, w1)
           | (Inr cl, m1, w1) \<Rightarrow> (Inr (CommitListJson cl), w1)))"

definition rollback_to_commit ::
  "string option \<Rightarrow> string \<Rightarrow> string \<Rightarrow> string \<Rightarrow> world \<Rightarrow> (exn + reply) \<times> world" where
  "rollback_to_commit default_repo_path rp commit_sha mode w =
     (case get_manager default_repo_path rp of
        Inl e \<Rightarrow> (Inl e, w)
      | Inr m \<Rightarrow>
          (case rollback commit_sha mode m w of
             (Inl e, m1, w1) \<Rightarrow> (Inl e, w1)
           | (Inr new_head, m1, w1) \<Rightarrow>
               (Inr (Text (''Rolled back to '' @ take 7 commit_sha @ ''. New HEAD: '' @
                           take 7 new_head @ '' (mode: '' @ mode @ '')'')), w1)))"

definition compare_commits_tool ::
  "string option \<Rightarrow> string \<Rightarrow> string \<Rightarrow> string \<Rightarrow> world \<Rightarrow> (exn + reply) \<times> world" where
  "compare_commits_tool default_repo_path rp from_c to_c w =
     (case get_manager default_repo_path rp of
        Inl e \<Rightarrow> (Inl e, w)
      | Inr m \<Rightarrow>
          (case compare_commits from_c to_c m w of
             (Inl e, m1, w1) \<Rightarrow> (Inl e, w1)
           | (Inr d, m1, w1) \<Rightarrow> (Inr (CommitDiffJson d), w1)))"

definition create_branch_tool ::
  "string option \<Rightarrow> string \<Rightarrow> string \<Rightarrow> string option \<Rightarrow> world \<Rightarrow> (exn + reply) \<times> world" where
  "create_branch_tool default_repo_path rp branch_name from_ref w =
     (case get_manager default_repo_path rp of
        Inl e \<Rightarrow> (Inl e, w)
      | Inr m \<Rightarrow>
          (case create_branch branch_name from_ref m w of
             (Inl e, m1, w1) \<Rightarrow> (Inl e, w1)
           | (Inr nm, m1, w1) \<Rightarrow> (Inr (Text (''Created branch: '' @ nm)), w1)))"

definition switch_branch_tool ::
  "string option \<Rightarrow> string \<Rightarrow> string \<Rightarrow> world \<Rightarrow> (exn + reply) \<times> world" where
  "switch_branch_tool default_repo_path rp branch_name w =
     (case get_manager default_repo_path rp of
        Inl e \<Rightarrow> (Inl e, w)
      | Inr m \<Rightarrow>
          (case switch_branch branch_name m w of
             (Inl e, m1, w1) \<Rightarrow> (Inl e, w1)
           | (Inr cur, m1, w1) \<Rightarrow> (Inr (Text (''Switched to branch: '' @ cur)), w1)))"

definition branch_line :: "BranchInfo \<Rightarrow> string" where
  "branch_line b =
     (if is_current b then ''* '' else ''  '') @ name b @ '' ('' @ last_commit_sha b @ ''): '' @
     last_commit_message b"

definition list_branches_tool :: "string option \<Rightarrow> string \<Rightarrow> world \<Rightarrow> (exn + reply) \<times> world" where
  "list_branches_tool default_repo_path rp w =
     (case get_manager default_repo_path rp of
        Inl e \<Rightarrow> (Inl e, w)
      | Inr m \<Rightarrow>
          (case list_branches m w of
             (Inl e, m1, w1) \<Rightarrow> (Inl e, w1)
           | (Inr bs, m1, w1) \<Rightarrow> (Inr (Text (str_join [CHR 0x0A] (map branch_line bs))), w1)))"

definition change_lines :: "RepoStatus \<Rightarrow> string list" where
  "change_lines st =
     (if staged_files st \<noteq> [] then
        [''Staged: '' @ str_join '', '' (take 5 (staged_files st))] @
        (if length (staged_files st) > 5
         then [''  ...and '' @ str_nat (length (staged_files st) - 5) @ '' more''] else [])
      else []) @
     (if modified_files st \<noteq> [] then [''Modified: '' @ str_join '', '' (take 5 (modified_files st))]
      else []) @
     (if untracked_files st \<noteq> [] then [''New: '' @ str_join '', '' (take 5 (untracked_files st))]
      else [])"

definition suggested_message :: "string \<Rightarrow> RepoStatus \<Rightarrow> string" where
  "suggested_message style st =
     (let file_count = length (staged_files st) + length (modified_files st) + length (untracked_files st);
          touched = modified_files st @ staged_files st
      in if style = ''conventional'' then
           (let prefix =
                  (if untracked_files st \<noteq> [] then ''feat''
                   else if list_ex (\<lambda>f. str_contains (str_lower f) ''test'') touched then ''test''
                   else if list_ex (\<lambda>f. str_contains (str_lower f) ''readme'' \<or>
                                          str_contains (str_lower f) ''doc'') touched then ''docs''
                   else ''chore'')
            in prefix @ '': update '' @ str_nat file_count @ '' file(s)'')
         else ''Update '' @ str_nat file_count @ '' file(s)'')"

definition generate_commit_message ::
  "string option \<Rightarrow> string \<Rightarrow> string \<Rightarrow> world \<Rightarrow> (exn + reply) \<times> world" where
  "generate_commit_message default_repo_path rp style w =
     (case get_manager default_repo_path rp of
        Inl e \<Rightarrow> (Inl e, w)
      | Inr m \<Rightarrow>
          (case get_status m w of
             (Inl e, m1, w1) \<Rightarrow> (Inl e, w1)
           | (Inr st, m1, w1) \<Rightarrow>
               if \<not> has_changes st then (Inr (Text ''No changes to describe''), w1)
               else
                 (Inr (Text (''Suggested message: '' @ suggested_message style st @
                             [CHR 0x0A, CHR 0x0A] @ ''Changes detected:'' @ [CHR 0x0A] @
                             str_join [CHR 0x0A] (change_lines st))), w1)))"

section \<open>The per-file counts in the words of the specification\<close>

text \<open>
  The number of lines of a patch that start with one sign and not with three, for each
  of the two signs, and what it means for a file of the diff to match an entry of the
  backend. These follow the specification, not the source; the theorems compare them with
  what \<^verbatim>\<open>compare_commits\<close> computes.
\<close>

definition plus_lines :: "string option \<Rightarrow> nat" where
  "plus_lines pt =
     (case pt of
        None \<Rightarrow> 0
      | Some t \<Rightarrow> length (filter (\<lambda>l. startswith l ''+'' \<and> \<not> startswith l ''+++'') (str_split (CHR 0x0A) t)))"

definition minus_lines :: "string option \<Rightarrow> nat" where
  "minus_lines pt =
     (case pt of
        None \<Rightarrow> 0
      | Some t \<Rightarrow> length (filter (\<lambda>l. startswith l ''-'' \<and> \<not> startswith l ''---'') (str_split (CHR 0x0A) t)))"

definition entry_matches :: "diff_entry \<Rightarrow> FileChange \<Rightarrow> bool" where
  "entry_matches e f =
     (status f = (if new_file e then ''added''
                  else if deleted_file e then ''deleted''
                  else if renamed e then ''renamed''
                  else ''modified'') \<and>
      additions f = plus_lines (patch f) \<and>
      deletions f = minus_lines (patch f) \<and>
      patch f = patch_of e \<and>
      (case patch f of None \<Rightarrow> additions f = 0 \<and> deletions f = 0 | Some t \<Rightarrow> True))"

text \<open>The failure that the \<^verbatim>\<open>repo\<close> property raises for a directory that is not a repository.\<close>

definition not_initialized :: "string \<Rightarrow> exn" where
  "not_initialized p =
     ValueError (''Git repository not initialized at '' @ p @ ''. Call initialize_repo first.'')"

section \<open>Example states\<close>

text \<open>
  The states at which the theorems below are evaluated: a world without any directory,
  and the directory \<^verbatim>\<open>/work\<close> as a plain directory, as a repository without
  commits, as a repository with one commit (HEAD attached or detached) and as a
  repository with two commits whose comparison yields two entries.
\<close>

definition ex_world_none :: world where
  "ex_world_none = \<lparr>nodes = (\<lambda>p. NoPath), user_name = ''dev'', user_email = ''dev@example.org'',
             clock = 1700000000, commit_diff = (\<lambda>a b. [])\<rparr>"

definition ex_commit :: git_commit where
  "ex_commit = \<lparr>hexsha = ''00000000000000000000000000000000000000a1'', commit_message = ''first'',
      commit_tree = [(''a.txt'', ''hello'')], parent = None, actor_name = ''dev'',
      actor_email = ''dev@example.org'', committed_date = 1700000000\<rparr>"

definition ex_repo :: repository where
  "ex_repo = \<lparr>objects = [ex_commit], heads = [(''master'', ''00000000000000000000000000000000000000a1'')],
      HEAD = Attached ''master'', index = [(''a.txt'', ''hello'')]\<rparr>"

definition ex_world_repo :: world where
  "ex_world_repo = ex_world_none\<lparr>nodes := (nodes ex_world_none)(''/work'' := Dir [(''a.txt'', ''hello'')] (Some ex_repo))\<rparr>"

definition ex_world_plain :: world where
  "ex_world_plain = ex_world_none\<lparr>nodes := (nodes ex_world_none)(''/work'' := Dir [(''a.txt'', ''hello'')] None)\<rparr>"

definition ex_world_fresh :: world where
  "ex_world_fresh = ex_world_none\<lparr>nodes := (nodes ex_world_none)(''/work'' := Dir [(''a.txt'', ''hello'')] (Some empty_repository))\<rparr>"

definition ex_repo_detached :: repository where
  "ex_repo_detached = ex_repo\<lparr>HEAD := Detached ''00000000000000000000000000000000000000a1''\<rparr>"

definition ex_world_detached :: world where
  "ex_world_detached =
     ex_world_none\<lparr>nodes := (nodes ex_world_none)(''/work'' := Dir [(''a.txt'', ''hello'')] (Some ex_repo_detached))\<rparr>"

definition ex_commit2 :: git_commit where
  "ex_commit2 = \<lparr>hexsha = ''00000000000000000000000000000000000000b2'', commit_message = ''second'',
      commit_tree = [(''a.txt'', ''bye''), (''n.txt'', ''one\<newline>two\<newline>'')],
      parent = Some ''00000000000000000000000000000000000000a1'', actor_name = ''dev'',
      actor_email = ''dev@example.org'', committed_date = 1700000100\<rparr>"

definition ex_repo2 :: repository where
  "ex_repo2 = \<lparr>objects = [ex_commit, ex_commit2],
      heads = [(''master'', ''00000000000000000000000000000000000000b2'')],
      HEAD = Attached ''master'', index = [(''a.txt'', ''bye''), (''n.txt'', ''one\<newline>two\<newline>'')]\<rparr>"

definition ex_entries :: "diff_entry list" where
  "ex_entries =
     [\<lparr>new_file = True, deleted_file = False, renamed = False,
       diff_field = Bytes ''--- /dev/null\<newline>+++ b/n.txt\<newline>@@ -0,0 +1,2 @@\<newline>+one\<newline>+two\<newline>'',
       a_path = Some ''n.txt'', b_path = Some ''n.txt''\<rparr>,
      \<lparr>new_file = False, deleted_file = False, renamed = False,
       diff_field = Bytes ''--- a/a.txt\<newline>+++ b/a.txt\<newline>@@ -1 +1 @@\<newline>-hello\<newline>+bye\<newline>'',
       a_path = Some ''a.txt'', b_path = Some ''a.txt''\<rparr>]"

definition ex_world_diff :: world where
  "ex_world_diff =
     ex_world_none\<lparr>nodes := (nodes ex_world_none)
                       (''/work'' := Dir [(''a.txt'', ''bye''), (''n.txt'', ''one\<newline>two\<newline>'')] (Some ex_repo2)),
                   commit_diff := (\<lambda>a b. ex_entries)\<rparr>"

definition ex_diff :: CommitDiff where
  "ex_diff =
     \<lparr>from_commit = ''00000000000000000000000000000000000000a1'', to_commit = ''HEAD'',
      files =
        [\<lparr>filename = ''n.txt'', status = ''added'', additions = 2, deletions = 0,
          patch = Some ''--- /dev/null\<newline>+++ b/n.txt\<newline>@@ -0,0 +1,2 @@\<newline>+one\<newline>+two\<newline>''\<rparr>,
         \<lparr>filename = ''a.txt'', status = ''modified'', additions = 1, deletions = 1,
          patch = Some ''--- a/a.txt\<newline>+++ b/a.txt\<newline>@@ -1 +1 @@\<newline>-hello\<newline>+bye\<newline>''\<rparr>],
      total_additions = 3, total_deletions = 1,
      summary = ''2 files changed, 3 insertions(+), 1 deletions(-)''\<rparr>"

section \<open>Opening the repository\<close>

lemma repo_path_GitManager [simp]: "repo_path (GitManager p) = p"
  by (simp add: GitManager_def)

lemma handle_GitManager [simp]: "handle (GitManager p) = False"
  by (simp add: GitManager_def)

lemma repo_opened:
  "Repo w (repo_path m) = Inr x \<Longrightarrow> repo m w = (Inr x, m\<lparr>handle := True\<rparr>)"
  by (cases m) (simp add: repo_def)

lemma Repo_dir_none: "nodes w p = Dir wt None \<Longrightarrow> Repo w p = Inl InvalidGitRepositoryError"
  by (simp add: Repo_def)

section \<open>Rollback validates the mode first\<close>

text \<open>
  Claim C3. For every target and every mode outside soft, mixed and hard,
  \<^verbatim>\<open>rollback\<close> fails and leaves the world as it was; where the path holds a
  repository the failure is the validation error. The check comes before the backend
  reset, so the target is never resolved: the result is the same for every target.
\<close>

theorem rollback_invalid_mode:
  assumes "mode \<notin> {''soft'', ''mixed'', ''hard''}"
  shows "(\<exists>e. fst (rollback commit_sha mode m w) = Inl e) \<and>
         snd (snd (rollback commit_sha mode m w)) = w \<and>
         (\<forall>x. Repo w (repo_path m) = Inr x \<longrightarrow>
              fst (rollback commit_sha mode m w) =
                Inl (ValueError ''Mode must be one of: ['soft', 'mixed', 'hard']'')) \<and>
         (\<forall>other. rollback other mode m w = rollback commit_sha mode m w)"
proof (cases "Repo w (repo_path m)")
  case (Inl e)
  then show ?thesis
    by (simp add: rollback_def repo_def)
next
  case (Inr x)
  obtain wt r where x: "x = (wt, r)" by (cases x)
  from assms have bad: "mode \<notin> set valid_modes" by (simp add: valid_modes_def)
  show ?thesis
    using Inr bad by (simp add: rollback_def repo_opened x mode_error_def)
qed

theorem rollback_invalid_mode_witness:
  "''invalid'' \<notin> {''soft'', ''mixed'', ''hard''} \<and>
   Repo ex_world_repo ''/work'' = Inr ([(''a.txt'', ''hello'')], ex_repo) \<and>
   rollback ''00000000000000000000000000000000000000a1'' ''invalid'' (GitManager ''/work'') ex_world_repo =
     (Inl (ValueError ''Mode must be one of: ['soft', 'mixed', 'hard']''),
      \<lparr>repo_path = ''/work'', handle = True\<rparr>, ex_world_repo)"
proof -
  have bad: "''invalid'' \<notin> {''soft'', ''mixed'', ''hard''}" by simp
  have op: "Repo ex_world_repo (repo_path (GitManager ''/work'')) = Inr ([(''a.txt'', ''hello'')], ex_repo)"
    by (simp add: Repo_def ex_world_repo_def GitManager_def)
  have m: "fst (snd (rollback ''00000000000000000000000000000000000000a1'' ''invalid'' (GitManager ''/work'') ex_world_repo))
           = \<lparr>repo_path = ''/work'', handle = True\<rparr>"
    using op by (simp add: rollback_def repo_opened valid_modes_def GitManager_def)
  from rollback_invalid_mode [OF bad, of "''00000000000000000000000000000000000000a1''" "GitManager ''/work''" ex_world_repo]
  show ?thesis using op m bad
    by (metis GitManager_def manager.select_convs(1) prod.collapse)
qed

section \<open>Initialize on an existing repository\<close>

lemma Repo_store: "Repo (store w p wt r) p = Inr (wt, r)"
  by (simp add: Repo_def store_def)

lemma initial_commit_steps_ok:
  "initial_commit_steps m w wt r = (Inr t, m1, w1) \<Longrightarrow>
   m1 = m \<and> (\<exists>wt1 r1. w1 = store w (repo_path m) wt1 r1)"
  by (auto simp: initial_commit_steps_def Let_def split: sum.splits if_splits prod.splits)

lemma is_initialized_opened:
  "Repo w (repo_path m) = Inr x \<Longrightarrow> GitManager_is_initialized m w = Inr True"
  by (simp add: GitManager_is_initialized_def)

lemma initialize_opened:
  assumes "Repo w (repo_path m) = Inr x"
  shows "initialize initial_commit m w =
           (Inr (''Repository already initialized at '' @ repo_path m), m, w)"
proof -
  from assms have "nodes w (repo_path m) \<noteq> NoPath"
    by (auto simp: Repo_def)
  with assms show ?thesis
    by (simp add: initialize_def Let_def is_initialized_opened)
qed

lemma initialize_success:
  assumes "initialize initial_commit m w = (Inr t, m1, w1)"
  shows "repo_path m1 = repo_path m \<and> (\<exists>x. Repo w1 (repo_path m) = Inr x)"
proof (cases "nodes w (repo_path m)")
  case NoPath
  with assms have "repo_path m1 = repo_path m \<and> (\<exists>wt r. nodes w1 (repo_path m) = Dir wt (Some r))"
    by (auto simp: initialize_def Let_def mkdir_def GitManager_is_initialized_def Repo_def
          Repo_init_def store_def
        dest!: initial_commit_steps_ok split: if_splits)
  then show ?thesis by (auto simp: Repo_def)
next
  case (Dir wt g)
  show ?thesis
  proof (cases g)
    case None
    with Dir assms have "repo_path m1 = repo_path m \<and> (\<exists>wt r. nodes w1 (repo_path m) = Dir wt (Some r))"
      by (auto simp: initialize_def Let_def GitManager_is_initialized_def Repo_def
            Repo_init_def store_def
          dest!: initial_commit_steps_ok split: if_splits)
    then show ?thesis by (auto simp: Repo_def)
  next
    case (Some r)
    with Dir have "Repo w (repo_path m) = Inr (wt, r)" by (simp add: Repo_def)
    from initialize_opened [OF this] assms show ?thesis
      using \<open>Repo w (repo_path m) = Inr (wt, r)\<close> by auto
  qed
qed

text \<open>
  Claim C8. Where the path holds a repository, \<^verbatim>\<open>initialize\<close> (with either value
  of \<^verbatim>\<open>initial_commit\<close>) returns the already-initialized message and changes
  neither the manager nor the world; so a call that follows a successful call returns
  that message and changes nothing.
\<close>

theorem initialize_existing:
  "(\<forall>x. Repo w (repo_path m) = Inr x \<longrightarrow>
      initialize initial_commit m w =
        (Inr (''Repository already initialized at '' @ repo_path m), m, w)) \<and>
   (\<forall>t m1 w1. initialize initial_commit m w = (Inr t, m1, w1) \<longrightarrow>
      initialize again m1 w1 = (Inr (''Repository already initialized at '' @ repo_path m), m1, w1))"
proof (intro conjI allI impI)
  fix x assume "Repo w (repo_path m) = Inr x"
  then show "initialize initial_commit m w =
        (Inr (''Repository already initialized at '' @ repo_path m), m, w)"
    by (rule initialize_opened)
next
  fix t m1 w1 assume "initialize initial_commit m w = (Inr t, m1, w1)"
  from initialize_success [OF this] obtain x where
    p: "repo_path m1 = repo_path m" and x: "Repo w1 (repo_path m1) = Inr x" by auto
  from initialize_opened [OF x, of again] p
  show "initialize again m1 w1 = (Inr (''Repository already initialized at '' @ repo_path m), m1, w1)"
    by simp
qed

theorem initialize_existing_witness:
  "Repo ex_world_repo ''/work'' = Inr ([(''a.txt'', ''hello'')], ex_repo) \<and>
   initialize True (GitManager ''/work'') ex_world_repo =
     (Inr ''Repository already initialized at /work'', GitManager ''/work'', ex_world_repo) \<and>
   initialize False (GitManager ''/work'') ex_world_plain =
     (Inr ''Initialized empty git repository at /work'',
      (GitManager ''/work'')\<lparr>handle := True\<rparr>, Repo_init ex_world_plain ''/work'') \<and>
   initialize True ((GitManager ''/work'')\<lparr>handle := True\<rparr>) (Repo_init ex_world_plain ''/work'') =
     (Inr ''Repository already initialized at /work'',
      (GitManager ''/work'')\<lparr>handle := True\<rparr>, Repo_init ex_world_plain ''/work'')"
proof -
  have op: "Repo ex_world_repo ''/work'' = Inr ([(''a.txt'', ''hello'')], ex_repo)"
    by (simp add: Repo_def ex_world_repo_def)
  have first: "initialize False (GitManager ''/work'') ex_world_plain =
     (Inr ''Initialized empty git repository at /work'',
      (GitManager ''/work'')\<lparr>handle := True\<rparr>, Repo_init ex_world_plain ''/work'')"
    by (simp add: initialize_def Let_def GitManager_is_initialized_def Repo_def ex_world_plain_def)
  note inst = initialize_existing [of ex_world_repo "GitManager ''/work''" True True]
    initialize_existing [of ex_world_plain "GitManager ''/work''" False True]
  from inst op first show ?thesis by simp
qed

section \<open>A repository without commits\<close>

lemma head_commit_no_objects: "objects r = [] \<Longrightarrow> head_commit r = None"
  by (simp add: head_commit_def lookup_commit_def split: option.splits)

lemma index_diff_HEAD_unborn: "objects r = [] \<Longrightarrow> index_diff_HEAD r = Inl (BadName ''HEAD'')"
  by (simp add: index_diff_HEAD_def rev_parse_def head_commit_no_objects)

lemma branch_label_total: "\<exists>b. branch_label r = Inr b"
  by (simp add: branch_label_def active_branch_def split: head_ref.splits)

lemma get_status_unborn:
  assumes "nodes w p = Dir wt (Some r)" "objects r = []"
  shows "fst (get_status (GitManager p) w) = Inl (BadName ''HEAD'')"
proof -
  have op: "Repo w (repo_path (GitManager p)) = Inr (wt, r)"
    using assms(1) by (simp add: Repo_def)
  obtain b where b: "branch_label r = Inr b" using branch_label_total by blast
  show ?thesis
    by (simp add: get_status_def is_initialized_opened [OF op] repo_opened [OF op] b
          index_diff_HEAD_unborn [OF assms(2)])
qed

lemma commit_all_unborn:
  assumes "Repo w (repo_path m) = Inr (wt, r)" "objects r = []"
  shows "commit_all msg m w =
           (Inl (BadName ''HEAD''), m\<lparr>handle := True\<rparr>, store w (repo_path m) wt (r\<lparr>index := wt\<rparr>))"
proof -
  have "objects (git_add_A wt r) = []" using assms(2) by (simp add: git_add_A_def)
  from index_diff_HEAD_unborn [OF this] show ?thesis
    by (simp add: commit_all_def repo_opened [OF assms(1)] Let_def git_add_A_def)
qed

text \<open>
  Claim C10. In a repository without commits \<^verbatim>\<open>get_status\<close> and
  \<^verbatim>\<open>commit_all\<close> raise \<^verbatim>\<open>BadName\<close>, because the index is compared with HEAD,
  which resolves to nothing. The tool \<^verbatim>\<open>commit_all_changes\<close> on a directory that
  is not a repository initializes it, stages the files and then fails the same way.
\<close>

theorem unborn_head_raises:
  "(\<forall>wt r. nodes w p = Dir wt (Some r) \<and> objects r = [] \<longrightarrow>
      fst (get_status (GitManager p) w) = Inl (BadName ''HEAD'') \<and>
      fst (commit_all msg (GitManager p) w) = Inl (BadName ''HEAD'')) \<and>
   (\<forall>wt. nodes w p = Dir wt None \<longrightarrow>
      fst (commit_all_changes p msg w) = Inl (BadName ''HEAD'') \<and>
      Repo (snd (commit_all_changes p msg w)) p = Inr (wt, empty_repository\<lparr>index := wt\<rparr>))"
proof (intro conjI allI impI)
  fix wt r assume a: "nodes w p = Dir wt (Some r) \<and> objects r = []"
  then show "fst (get_status (GitManager p) w) = Inl (BadName ''HEAD'')"
    by (simp add: get_status_unborn)
  from a have "Repo w (repo_path (GitManager p)) = Inr (wt, r)"
    by (simp add: Repo_def)
  from commit_all_unborn [OF this] a
  show "fst (commit_all msg (GitManager p) w) = Inl (BadName ''HEAD'')" by simp
next
  fix wt assume a: "nodes w p = Dir wt None"
  let ?m1 = "(GitManager p)\<lparr>handle := True\<rparr>"
  let ?w1 = "Repo_init w p"
  have init: "initialize False (GitManager p) w =
                (Inr (''Initialized empty git repository at '' @ p), ?m1, ?w1)"
    using a by (simp add: initialize_def Let_def GitManager_is_initialized_def Repo_def)
  have op: "Repo ?w1 (repo_path ?m1) = Inr (wt, empty_repository)"
    using a by (simp add: Repo_init_def Repo_def)
  have "objects empty_repository = []" by (simp add: empty_repository_def)
  from commit_all_unborn [OF op this, of msg]
  have ca: "commit_all msg ?m1 ?w1 =
              (Inl (BadName ''HEAD''), ?m1, store ?w1 p wt (empty_repository\<lparr>index := wt\<rparr>))"
    by simp
  have cac: "commit_all_changes p msg w =
               (Inl (BadName ''HEAD''), store ?w1 p wt (empty_repository\<lparr>index := wt\<rparr>))"
    using a by (simp add: commit_all_changes_def Let_def GitManager_is_initialized_def Repo_def
          init ca text_reply_def)
  show "fst (commit_all_changes p msg w) = Inl (BadName ''HEAD'')" by (simp add: cac)
  show "Repo (snd (commit_all_changes p msg w)) p = Inr (wt, empty_repository\<lparr>index := wt\<rparr>)"
    by (simp add: cac Repo_store)
qed

theorem unborn_head_raises_witness:
  "nodes ex_world_fresh ''/work'' = Dir [(''a.txt'', ''hello'')] (Some empty_repository) \<and>
   objects empty_repository = [] \<and>
   fst (get_status (GitManager ''/work'') ex_world_fresh) = Inl (BadName ''HEAD'') \<and>
   fst (commit_all ''first'' (GitManager ''/work'') ex_world_fresh) = Inl (BadName ''HEAD'') \<and>
   nodes ex_world_plain ''/work'' = Dir [(''a.txt'', ''hello'')] None \<and>
   fst (commit_all_changes ''/work'' ''first'' ex_world_plain) = Inl (BadName ''HEAD'') \<and>
   Repo (snd (commit_all_changes ''/work'' ''first'' ex_world_plain)) ''/work'' =
     Inr ([(''a.txt'', ''hello'')], empty_repository\<lparr>index := [(''a.txt'', ''hello'')]\<rparr>)"
proof -
  have a: "nodes ex_world_fresh ''/work'' = Dir [(''a.txt'', ''hello'')] (Some empty_repository)"
    by (simp add: ex_world_fresh_def)
  have b: "objects empty_repository = []" by (simp add: empty_repository_def)
  have c: "nodes ex_world_plain ''/work'' = Dir [(''a.txt'', ''hello'')] None"
    by (simp add: ex_world_plain_def)
  from unborn_head_raises [of ex_world_fresh "''/work''" "''first''"]
    unborn_head_raises [of ex_world_plain "''/work''" "''first''"] a b c
  show ?thesis by simp
qed

section \<open>Comparing commits, listing commits, creating a branch\<close>

lemma plus_not_minus: "startswith l ''+'' \<Longrightarrow> \<not> startswith l ''-''"
  by (cases l) (auto simp: startswith_def)

lemma count_lines_filter:
  "count_lines ls (a, d) =
     (a + length (filter (\<lambda>l. startswith l ''+'' \<and> \<not> startswith l ''+++'') ls),
      d + length (filter (\<lambda>l. startswith l ''-'' \<and> \<not> startswith l ''---'') ls))"
  by (induction ls arbitrary: a d) (auto dest: plus_not_minus)

lemma count_patch_lines: "count_patch pt = (plus_lines pt, minus_lines pt)"
  by (cases pt) (auto simp: count_patch_def plus_lines_def minus_lines_def count_lines_filter startswith_def)

lemma diff_loop_acc:
  "diff_loop ds (fs, ta, td) = Inr (fs', ta', td') \<Longrightarrow>
   \<exists>gs. fs' = fs @ gs \<and> list_all2 entry_matches ds gs \<and>
        ta' = ta + sum_list (map additions gs) \<and> td' = td + sum_list (map deletions gs)"
proof (induction ds arbitrary: fs ta td)
  case Nil
  then show ?case by simp
next
  case (Cons e ds)
  from Cons.prems obtain fn where fn: "filename_of e = Some fn"
    by (auto simp: Let_def count_patch_lines split: option.splits)
  let ?f = "\<lparr>filename = fn, status = file_status e, additions = plus_lines (patch_of e),
             deletions = minus_lines (patch_of e), patch = patch_of e\<rparr>"
  from Cons.prems fn have
    "diff_loop ds (fs @ [?f], ta + plus_lines (patch_of e), td + minus_lines (patch_of e)) = Inr (fs', ta', td')"
    by (simp add: Let_def count_patch_lines)
  from Cons.IH [OF this] obtain gs where gs:
    "fs' = (fs @ [?f]) @ gs" "list_all2 entry_matches ds gs"
    "ta' = ta + plus_lines (patch_of e) + sum_list (map additions gs)"
    "td' = td + minus_lines (patch_of e) + sum_list (map deletions gs)" by blast
  have m: "entry_matches e ?f"
    by (simp add: entry_matches_def file_status_def plus_lines_def minus_lines_def
          split: option.splits)
  show ?case
    by (rule exI [of _ "?f # gs"]) (use gs m in simp)
qed

lemma diff_loop_total:
  "list_all (\<lambda>e. filename_of e \<noteq> None) ds \<Longrightarrow> \<exists>out. diff_loop ds acc = Inr out"
proof (induction ds arbitrary: acc)
  case Nil
  then show ?case by (cases acc) auto
next
  case (Cons e ds)
  obtain fs ta td where acc: "acc = (fs, ta, td)" by (cases acc) auto
  from Cons.prems obtain fn where fn: "filename_of e = Some fn" by auto
  from Cons.prems have "list_all (\<lambda>e. filename_of e \<noteq> None) ds" by simp
  from Cons.IH [OF this] show ?case
    by (simp add: acc fn Let_def split: prod.splits)
qed

lemma compare_commits_opened:
  assumes "Repo w (repo_path m) = Inr (wt, r)" "rev_parse r a = Inr ca" "rev_parse r b = Inr cb"
  shows "compare_commits a b m w =
     (case diff_loop (commit_diff w ca cb) ([], 0, 0) of
        Inl e \<Rightarrow> (Inl e, m\<lparr>handle := True\<rparr>, w)
      | Inr (fs, total_add, total_del) \<Rightarrow>
          (Inr \<lparr>from_commit = a, to_commit = b, files = fs,
                total_additions = total_add, total_deletions = total_del,
                summary = summary_text (length fs) total_add total_del\<rparr>,
           m\<lparr>handle := True\<rparr>, w))"
  by (simp add: compare_commits_def repo_opened [OF assms(1)] assms(2,3))

lemma compare_commits_returned:
  assumes "fst (compare_commits a b m w) = Inr d"
  shows "\<exists>wt r ca cb fs ta td. Repo w (repo_path m) = Inr (wt, r) \<and> rev_parse r a = Inr ca \<and>
           rev_parse r b = Inr cb \<and> diff_loop (commit_diff w ca cb) ([], 0, 0) = Inr (fs, ta, td) \<and>
           d = \<lparr>from_commit = a, to_commit = b, files = fs,
                total_additions = ta, total_deletions = td,
                summary = summary_text (length fs) ta td\<rparr>"
proof (cases "Repo w (repo_path m)")
  case (Inl e)
  with assms show ?thesis by (simp add: compare_commits_def repo_def split: if_splits)
next
  case (Inr x)
  obtain wt r where x: "x = (wt, r)" by (cases x)
  from assms show ?thesis
    using Inr unfolding x
    by (auto simp: compare_commits_def repo_opened split: sum.splits)
qed

text \<open>
  Claim C4. Whenever \<^verbatim>\<open>compare_commits\<close> returns a diff, its totals are the sums of
  the per-file counts, its summary is the count of files and the two totals in the fixed
  sentence, and the two identifiers are the strings that were passed in. It does return
  one when the repository opens, both identifiers resolve and every entry of the backend
  carries a path.
\<close>

theorem compare_commits_totals:
  "(\<forall>d. fst (compare_commits a b m w) = Inr d \<longrightarrow>
      total_additions d = sum_list (map additions (files d)) \<and>
      total_deletions d = sum_list (map deletions (files d)) \<and>
      summary d = str_nat (length (files d)) @ '' files changed, '' @
                  str_nat (total_additions d) @ '' insertions(+), '' @
                  str_nat (total_deletions d) @ '' deletions(-)'' \<and>
      from_commit d = a \<and> to_commit d = b) \<and>
   (\<forall>wt r ca cb. Repo w (repo_path m) = Inr (wt, r) \<and> rev_parse r a = Inr ca \<and>
      rev_parse r b = Inr cb \<and> list_all (\<lambda>e. filename_of e \<noteq> None) (commit_diff w ca cb) \<longrightarrow>
      (\<exists>d. fst (compare_commits a b m w) = Inr d))"
proof (rule conjI)
  show "\<forall>d. fst (compare_commits a b m w) = Inr d \<longrightarrow>
      total_additions d = sum_list (map additions (files d)) \<and>
      total_deletions d = sum_list (map deletions (files d)) \<and>
      summary d = str_nat (length (files d)) @ '' files changed, '' @
                  str_nat (total_additions d) @ '' insertions(+), '' @
                  str_nat (total_deletions d) @ '' deletions(-)'' \<and>
      from_commit d = a \<and> to_commit d = b"
  proof (rule allI, rule impI)
    fix d assume "fst (compare_commits a b m w) = Inr d"
    from compare_commits_returned [OF this] obtain ca cb fs ta td where
      loop: "diff_loop (commit_diff w ca cb) ([], 0, 0) = Inr (fs, ta, td)" and
      d: "d = \<lparr>from_commit = a, to_commit = b, files = fs,
                  total_additions = ta, total_deletions = td,
                  summary = summary_text (length fs) ta td\<rparr>" by blast
    from diff_loop_acc [OF loop] have
      "ta = sum_list (map additions fs)" "td = sum_list (map deletions fs)" by auto
    then show "total_additions d = sum_list (map additions (files d)) \<and>
        total_deletions d = sum_list (map deletions (files d)) \<and>
        summary d = str_nat (length (files d)) @ '' files changed, '' @
                    str_nat (total_additions d) @ '' insertions(+), '' @
                    str_nat (total_deletions d) @ '' deletions(-)'' \<and>
        from_commit d = a \<and> to_commit d = b"
      by (simp add: d summary_text_def)
  qed
next
  show "\<forall>wt r ca cb. Repo w (repo_path m) = Inr (wt, r) \<and> rev_parse r a = Inr ca \<and>
      rev_parse r b = Inr cb \<and> list_all (\<lambda>e. filename_of e \<noteq> None) (commit_diff w ca cb) \<longrightarrow>
      (\<exists>d. fst (compare_commits a b m w) = Inr d)"
  proof (intro allI impI)
    fix wt r ca cb
    assume h: "Repo w (repo_path m) = Inr (wt, r) \<and> rev_parse r a = Inr ca \<and>
        rev_parse r b = Inr cb \<and> list_all (\<lambda>e. filename_of e \<noteq> None) (commit_diff w ca cb)"
    then obtain out where "diff_loop (commit_diff w ca cb) ([], 0, 0) = Inr out"
      using diff_loop_total by blast
    with h show "\<exists>d. fst (compare_commits a b m w) = Inr d"
      by (cases out) (simp add: compare_commits_opened)
  qed
qed

text \<open>
  Claim C6. Each file of the diff matches the backend's entry at the same position: the
  status follows the precedence added, deleted, renamed, modified, and the two counts are
  the numbers of lines of the patch that start with a plus or minus sign but not with
  three of them; without a patch both are zero.
\<close>

theorem compare_commits_entries:
  assumes "Repo w (repo_path m) = Inr (wt, r)" "rev_parse r a = Inr ca" "rev_parse r b = Inr cb"
    and "fst (compare_commits a b m w) = Inr d"
  shows "list_all2 entry_matches (commit_diff w ca cb) (files d)"
proof -
  from assms obtain fs ta td where
    loop: "diff_loop (commit_diff w ca cb) ([], 0, 0) = Inr (fs, ta, td)" and d: "files d = fs"
    by (auto simp: compare_commits_opened split: sum.splits)
  from diff_loop_acc [OF loop] d show ?thesis by auto
qed

lemma iter_commits_resolved:
  assumes "rev_parse r br = Inr c"
  shows "\<exists>cs. iter_commits r br (Some limit) = Inr cs \<and> (0 \<le> limit \<longrightarrow> int (length cs) \<le> limit)"
  using assms by (auto simp: iter_commits_def Let_def)

text \<open>
  Claim C5, as amended. For a reference that resolves, \<^verbatim>\<open>list_commits\<close> returns a
  list whose \<^verbatim>\<open>total_count\<close> is the number of commits it holds, at most the limit
  when the limit is not negative. The branch is the active branch when the reference is
  HEAD and HEAD is attached, the text \<^verbatim>\<open>HEAD (detached)\<close> when the reference is HEAD
  and HEAD is detached, and the reference itself otherwise.
\<close>

theorem list_commits_count_and_branch:
  assumes "Repo w (repo_path m) = Inr (wt, r)" "rev_parse r br = Inr c"
  shows "\<exists>cl. list_commits br limit m w = (Inr cl, m\<lparr>handle := True\<rparr>, w) \<and>
           total_count cl = length (commits cl) \<and>
           (0 \<le> limit \<longrightarrow> int (total_count cl) \<le> limit) \<and>
           branch cl = (if br = ''HEAD''
                        then (case HEAD r of Attached b \<Rightarrow> b | Detached s \<Rightarrow> ''HEAD (detached)'')
                        else br)"
proof -
  from iter_commits_resolved [OF assms(2), of limit] obtain cs where
    cs: "iter_commits r br (Some limit) = Inr cs" "0 \<le> limit \<longrightarrow> int (length cs) \<le> limit" by blast
  have lab: "branch_label r = Inr (case HEAD r of Attached b \<Rightarrow> b | Detached s \<Rightarrow> ''HEAD (detached)'')"
    by (simp add: branch_label_def active_branch_def split: head_ref.splits)
  show ?thesis
    using cs by (simp add: list_commits_def repo_opened [OF assms(1)] lab Let_def)
qed

text \<open>
  Claim C5 as stated fails with a detached HEAD: the branch is the text
  \<^verbatim>\<open>HEAD (detached)\<close>, not the reference that was passed in; and with the limit
  \<^verbatim>\<open>-1\<close> one commit is returned.
\<close>

theorem list_commits_counterexample:
  "fst (list_commits ''HEAD'' 50 (GitManager ''/work'') ex_world_detached) =
     Inr \<lparr>commits = [commit_info ex_commit], total_count = 1, branch = ''HEAD (detached)''\<rparr> \<and>
   ''HEAD (detached)'' \<noteq> ''HEAD'' \<and>
   fst (list_commits ''HEAD'' (- 1) (GitManager ''/work'') ex_world_detached) =
     Inr \<lparr>commits = [commit_info ex_commit], total_count = 1, branch = ''HEAD (detached)''\<rparr> \<and>
   \<not> (1 \<le> (- 1 :: int))"
  by (simp add: list_commits_def repo_def Repo_def ex_world_detached_def ex_world_none_def
        ex_repo_detached_def ex_repo_def iter_commits_def rev_parse_def head_commit_def head_sha_def
        lookup_commit_def ex_commit_def branch_label_def active_branch_def Let_def)

lemma create_head_frame:
  assumes "create_head nm start r = Inr r1"
  shows "index r1 = index r \<and> HEAD r1 = HEAD r \<and> objects r1 = objects r \<and>
         map_of (heads r1) nm \<noteq> None \<and>
         (\<forall>k v. map_of (heads r) k = Some v \<longrightarrow> map_of (heads r1) k = Some v)"
  using assms
  by (auto simp: create_head_def map_add_def split: sum.splits option.splits if_splits)

lemma index_diff_HEAD_kept:
  assumes "index r1 = index r" "HEAD r1 = HEAD r" "objects r1 = objects r"
    and "\<forall>k v. map_of (heads r) k = Some v \<longrightarrow> map_of (heads r1) k = Some v"
    and "index_diff_HEAD r = Inr xs"
  shows "index_diff_HEAD r1 = Inr xs"
proof -
  from assms(5) obtain c where c: "head_commit r = Some c" "xs = changed_paths (commit_tree c) (index r)"
    by (auto simp: index_diff_HEAD_def rev_parse_def split: option.splits)
  from c(1) obtain s where s: "head_sha r = Some s" "lookup_commit r s = Some c"
    by (auto simp: head_commit_def split: option.splits)
  from s(1) assms(2,4) have "head_sha r1 = Some s"
    by (auto simp: head_sha_def split: head_ref.splits)
  moreover from s(2) assms(3) have "lookup_commit r1 s = Some c"
    by (simp add: lookup_commit_def)
  ultimately have "head_commit r1 = Some c" by (simp add: head_commit_def)
  then show ?thesis using c(2) assms(1) by (simp add: index_diff_HEAD_def rev_parse_def)
qed

lemma get_status_opened:
  assumes "Repo w (repo_path m) = Inr (wt, r)"
  shows "fst (get_status m w) =
     (case branch_label r of
        Inl e \<Rightarrow> Inl e
      | Inr cur \<Rightarrow>
          (case index_diff_HEAD r of
             Inl e \<Rightarrow> Inl e
           | Inr staged \<Rightarrow>
               Inr \<lparr>is_initialized = True, current_branch = Some cur,
                    has_changes = (staged \<noteq> [] \<or> index_diff_None wt r \<noteq> [] \<or> repo_untracked_files wt r \<noteq> []),
                    staged_files = staged, modified_files = index_diff_None wt r,
                    untracked_files = repo_untracked_files wt r\<rparr>))"
  by (simp add: get_status_def is_initialized_opened [OF assms] repo_opened [OF assms] Let_def
        split: sum.splits)

lemma create_branch_cases:
  assumes "Repo w (repo_path m) = Inr (wt, r)"
  shows "(\<exists>e. create_branch x from_ref m w = (Inl e, m\<lparr>handle := True\<rparr>, w)) \<or>
         (\<exists>start r1. create_head x start r = Inr r1 \<and>
            create_branch x from_ref m w = (Inr x, m\<lparr>handle := True\<rparr>, store w (repo_path m) wt r1))"
  by (auto simp: create_branch_def repo_opened [OF assms] Let_def
      split: option.splits sum.splits exn.splits)

text \<open>
  Claim C9. With HEAD attached to a branch, \<^verbatim>\<open>create_branch\<close> leaves the working
  tree, the index and HEAD as they were, so the active branch is the same; every status
  that \<^verbatim>\<open>get_status\<close> reported before the call it reports after it; and when the
  call returns, it returns the name and the branch exists.
\<close>

theorem create_branch_no_switch:
  assumes "Repo w (repo_path m) = Inr (wt, r)" "HEAD r = Attached b"
  shows "\<exists>r1. Repo (snd (snd (create_branch x from_ref m w))) (repo_path m) = Inr (wt, r1) \<and>
           index r1 = index r \<and> HEAD r1 = Attached b \<and> active_branch r1 = Inr b \<and>
           (\<forall>st. fst (get_status m w) = Inr st \<longrightarrow>
                 fst (get_status m (snd (snd (create_branch x from_ref m w)))) = Inr st) \<and>
           (\<forall>nm. fst (create_branch x from_ref m w) = Inr nm \<longrightarrow>
                 nm = x \<and> map_of (heads r1) x \<noteq> None)"
proof -
  from create_branch_cases [OF assms(1), of x from_ref]
  consider (fail) e where "create_branch x from_ref m w = (Inl e, m\<lparr>handle := True\<rparr>, w)"
    | (ok) start r1 where "create_head x start r = Inr r1"
        "create_branch x from_ref m w = (Inr x, m\<lparr>handle := True\<rparr>, store w (repo_path m) wt r1)"
    by blast
  then show ?thesis
  proof cases
    case fail
    then show ?thesis
      using assms by (intro exI [of _ r]) (simp add: active_branch_def)
  next
    case ok
    note fr = create_head_frame [OF ok(1)]
    have op1: "Repo (store w (repo_path m) wt r1) (repo_path m) = Inr (wt, r1)"
      by (rule Repo_store)
    have lab: "branch_label r1 = branch_label r"
      using fr by (simp add: branch_label_def active_branch_def)
    have st: "fst (get_status m (store w (repo_path m) wt r1)) = Inr st"
      if "fst (get_status m w) = Inr st" for st
    proof -
      from that obtain cur xs where cur: "branch_label r = Inr cur" and xs: "index_diff_HEAD r = Inr xs"
        by (auto simp: get_status_opened [OF assms(1)] split: sum.splits)
      from fr xs have xs1: "index_diff_HEAD r1 = Inr xs"
        by (intro index_diff_HEAD_kept [of r1 r]) auto
      have "index_diff_None wt r1 = index_diff_None wt r"
        "repo_untracked_files wt r1 = repo_untracked_files wt r"
        using fr by (simp_all add: index_diff_None_def repo_untracked_files_def)
      with that show ?thesis
        by (simp add: get_status_opened [OF assms(1)] get_status_opened [OF op1] lab cur xs xs1)
    qed
    show ?thesis
      using fr assms(2) st
      by (intro exI [of _ r1]) (simp add: ok(2) op1 active_branch_def)
  qed
qed

lemma ex_diff_opened:
  "Repo ex_world_diff (repo_path (GitManager ''/work'')) =
     Inr ([(''a.txt'', ''bye''), (''n.txt'', ''one\<newline>two\<newline>'')], ex_repo2)"
  by (simp add: Repo_def ex_world_diff_def)

lemma ex_diff_from: "rev_parse ex_repo2 ''00000000000000000000000000000000000000a1'' = Inr ex_commit"
  by (simp add: rev_parse_def lookup_commit_def ex_repo2_def ex_commit_def)

lemma ex_diff_to: "rev_parse ex_repo2 ''HEAD'' = Inr ex_commit2"
  by (simp add: rev_parse_def head_commit_def head_sha_def lookup_commit_def ex_repo2_def
        ex_commit_def ex_commit2_def)

lemma ex_diff_loop:
  "diff_loop ex_entries ([], 0, 0) = Inr (files ex_diff, 3, 1)"
  by (simp add: ex_entries_def ex_diff_def Let_def file_status_def patch_of_def decode_utf8_def
        count_patch_def filename_of_def startswith_def)

lemma ex_diff_result:
  "fst (compare_commits ''00000000000000000000000000000000000000a1'' ''HEAD''
          (GitManager ''/work'') ex_world_diff) = Inr ex_diff"
proof -
  have cd: "commit_diff ex_world_diff ex_commit ex_commit2 = ex_entries"
    by (simp add: ex_world_diff_def)
  have sm: "summary_text 2 3 (Suc 0) = ''2 files changed, 3 insertions(+), 1 deletions(-)''"
    by (simp add: summary_text_def)
  have len: "length (files ex_diff) = 2" by (simp add: ex_diff_def)
  show ?thesis
    by (simp add: compare_commits_opened [OF ex_diff_opened ex_diff_from ex_diff_to] cd
          ex_diff_loop len sm) (simp add: ex_diff_def)
qed

theorem compare_commits_totals_witness:
  "fst (compare_commits ''00000000000000000000000000000000000000a1'' ''HEAD''
          (GitManager ''/work'') ex_world_diff) = Inr ex_diff \<and>
   total_additions ex_diff = sum_list (map additions (files ex_diff)) \<and>
   total_additions ex_diff = 3 \<and> total_deletions ex_diff = 1 \<and>
   summary ex_diff = ''2 files changed, 3 insertions(+), 1 deletions(-)'' \<and>
   summary ex_diff = str_nat (length (files ex_diff)) @ '' files changed, '' @
                  str_nat (total_additions ex_diff) @ '' insertions(+), '' @
                  str_nat (total_deletions ex_diff) @ '' deletions(-)'' \<and>
   list_all (\<lambda>e. filename_of e \<noteq> None)
     (commit_diff ex_world_diff ex_commit ex_commit2)"
proof -
  have paths: "list_all (\<lambda>e. filename_of e \<noteq> None) (commit_diff ex_world_diff ex_commit ex_commit2)"
    by (simp add: ex_world_diff_def ex_entries_def filename_of_def)
  have vals: "total_additions ex_diff = 3" "total_deletions ex_diff = 1"
    "summary ex_diff = ''2 files changed, 3 insertions(+), 1 deletions(-)''"
    by (simp_all add: ex_diff_def)
  from compare_commits_totals [of "''00000000000000000000000000000000000000a1''" "''HEAD''"
      "GitManager ''/work''" ex_world_diff] ex_diff_result
  have "total_additions ex_diff = sum_list (map additions (files ex_diff)) \<and>
      summary ex_diff = str_nat (length (files ex_diff)) @ '' files changed, '' @
                  str_nat (total_additions ex_diff) @ '' insertions(+), '' @
                  str_nat (total_deletions ex_diff) @ '' deletions(-)''"
    by blast
  with ex_diff_result paths vals show ?thesis by simp
qed

theorem compare_commits_entries_witness:
  "Repo ex_world_diff (repo_path (GitManager ''/work'')) =
     Inr ([(''a.txt'', ''bye''), (''n.txt'', ''one\<newline>two\<newline>'')], ex_repo2) \<and>
   rev_parse ex_repo2 ''00000000000000000000000000000000000000a1'' = Inr ex_commit \<and>
   rev_parse ex_repo2 ''HEAD'' = Inr ex_commit2 \<and>
   fst (compare_commits ''00000000000000000000000000000000000000a1'' ''HEAD''
          (GitManager ''/work'') ex_world_diff) = Inr ex_diff \<and>
   list_all2 entry_matches ex_entries (files ex_diff) \<and>
   map status (files ex_diff) = [''added'', ''modified''] \<and>
   map additions (files ex_diff) = [2, 1] \<and> map deletions (files ex_diff) = [0, 1]"
proof -
  have cd: "commit_diff ex_world_diff ex_commit ex_commit2 = ex_entries"
    by (simp add: ex_world_diff_def)
  have vals: "map status (files ex_diff) = [''added'', ''modified'']"
    "map additions (files ex_diff) = [2, 1]" "map deletions (files ex_diff) = [0, 1]"
    by (simp_all add: ex_diff_def)
  from compare_commits_entries [OF ex_diff_opened ex_diff_from ex_diff_to ex_diff_result] cd
  have "list_all2 entry_matches ex_entries (files ex_diff)" by simp
  with ex_diff_opened ex_diff_from ex_diff_to ex_diff_result vals show ?thesis by simp
qed

theorem list_commits_count_and_branch_witness:
  "Repo ex_world_repo (repo_path (GitManager ''/work'')) = Inr ([(''a.txt'', ''hello'')], ex_repo) \<and>
   rev_parse ex_repo ''HEAD'' = Inr ex_commit \<and>
   list_commits ''HEAD'' 50 (GitManager ''/work'') ex_world_repo =
     (Inr \<lparr>commits = [commit_info ex_commit], total_count = 1, branch = ''master''\<rparr>,
      (GitManager ''/work'')\<lparr>handle := True\<rparr>, ex_world_repo)"
proof -
  have op: "Repo ex_world_repo (repo_path (GitManager ''/work'')) = Inr ([(''a.txt'', ''hello'')], ex_repo)"
    by (simp add: Repo_def ex_world_repo_def)
  have rp: "rev_parse ex_repo ''HEAD'' = Inr ex_commit"
    by (simp add: rev_parse_def head_commit_def head_sha_def lookup_commit_def ex_repo_def ex_commit_def)
  have it: "iter_commits ex_repo ''HEAD'' (Some 50) = Inr [ex_commit]"
    by (simp add: iter_commits_def rp Let_def) (simp add: ex_repo_def ex_commit_def lookup_commit_def)
  from list_commits_count_and_branch [OF op rp, of 50] obtain cl where
    cl: "list_commits ''HEAD'' 50 (GitManager ''/work'') ex_world_repo =
           (Inr cl, (GitManager ''/work'')\<lparr>handle := True\<rparr>, ex_world_repo)" by blast
  have "cl = \<lparr>commits = [commit_info ex_commit], total_count = 1, branch = ''master''\<rparr>"
    using cl by (simp add: list_commits_def repo_opened [OF op] it branch_label_def active_branch_def
          Let_def) (simp add: ex_repo_def)
  with op rp cl show ?thesis by simp
qed

theorem create_branch_no_switch_witness:
  "Repo ex_world_repo (repo_path (GitManager ''/work'')) = Inr ([(''a.txt'', ''hello'')], ex_repo) \<and>
   HEAD ex_repo = Attached ''master'' \<and>
   create_branch ''x'' None (GitManager ''/work'') ex_world_repo =
     (Inr ''x'', (GitManager ''/work'')\<lparr>handle := True\<rparr>,
      store ex_world_repo ''/work'' [(''a.txt'', ''hello'')]
        (ex_repo\<lparr>heads := heads ex_repo @ [(''x'', ''00000000000000000000000000000000000000a1'')]\<rparr>)) \<and>
   fst (get_status (GitManager ''/work'') ex_world_repo) =
     Inr \<lparr>is_initialized = True, current_branch = Some ''master'', has_changes = False,
          staged_files = [], modified_files = [], untracked_files = []\<rparr> \<and>
   fst (get_status (GitManager ''/work'')
          (snd (snd (create_branch ''x'' None (GitManager ''/work'') ex_world_repo)))) =
     Inr \<lparr>is_initialized = True, current_branch = Some ''master'', has_changes = False,
          staged_files = [], modified_files = [], untracked_files = []\<rparr>"
proof -
  have op: "Repo ex_world_repo (repo_path (GitManager ''/work'')) = Inr ([(''a.txt'', ''hello'')], ex_repo)"
    by (simp add: Repo_def ex_world_repo_def)
  have hd: "HEAD ex_repo = Attached ''master''" by (simp add: ex_repo_def)
  have rp: "rev_parse ex_repo ''HEAD'' = Inr ex_commit"
    by (simp add: rev_parse_def head_commit_def head_sha_def lookup_commit_def ex_repo_def ex_commit_def)
  have ch: "create_head ''x'' ''HEAD'' ex_repo =
              Inr (ex_repo\<lparr>heads := heads ex_repo @ [(''x'', ''00000000000000000000000000000000000000a1'')]\<rparr>)"
    by (simp add: create_head_def rp) (simp add: ex_repo_def ex_commit_def)
  have cb: "create_branch ''x'' None (GitManager ''/work'') ex_world_repo =
     (Inr ''x'', (GitManager ''/work'')\<lparr>handle := True\<rparr>,
      store ex_world_repo ''/work'' [(''a.txt'', ''hello'')]
        (ex_repo\<lparr>heads := heads ex_repo @ [(''x'', ''00000000000000000000000000000000000000a1'')]\<rparr>))"
    by (simp add: create_branch_def repo_opened [OF op] ch Let_def)
  have st: "fst (get_status (GitManager ''/work'') ex_world_repo) =
     Inr \<lparr>is_initialized = True, current_branch = Some ''master'', has_changes = False,
          staged_files = [], modified_files = [], untracked_files = []\<rparr>"
    by (simp add: get_status_opened [OF op] branch_label_def active_branch_def hd index_diff_HEAD_def rp)
       (simp add: ex_repo_def ex_commit_def changed_paths_def index_diff_None_def repo_untracked_files_def)
  from create_branch_no_switch [OF op hd, of "''x''" None] st
  have "fst (get_status (GitManager ''/work'')
          (snd (snd (create_branch ''x'' None (GitManager ''/work'') ex_world_repo)))) =
     Inr \<lparr>is_initialized = True, current_branch = Some ''master'', has_changes = False,
          staged_files = [], modified_files = [], untracked_files = []\<rparr>"
    by blast
  with op hd cb st show ?thesis by simp
qed

section \<open>The tools on a directory that is not a repository\<close>

lemma get_manager_Inr: "get_manager dflt rp = Inr m \<Longrightarrow> m = GitManager (repo_path m)"
  by (auto simp: get_manager_def Let_def split: option.splits if_splits)

lemma repo_plain:
  assumes "nodes w p = Dir wt None"
  shows "repo (GitManager p) w = (Inl (not_initialized p), GitManager p)"
  using assms by (simp add: repo_def Repo_def not_initialized_def)

lemma get_status_plain:
  assumes "nodes w p = Dir wt None"
  shows "get_status (GitManager p) w =
           (Inr \<lparr>is_initialized = False, current_branch = None, has_changes = False,
                 staged_files = [], modified_files = [], untracked_files = []\<rparr>, GitManager p, w)"
  using assms by (simp add: get_status_def GitManager_is_initialized_def Repo_def)

lemma is_initialized_plain:
  "nodes w p = Dir wt None \<Longrightarrow> GitManager_is_initialized (GitManager p) w = Inr False"
  by (simp add: GitManager_is_initialized_def Repo_def)

text \<open>
  Claim C7, as amended. On an existing directory that holds no repository, the tools
  \<^verbatim>\<open>list_commits\<close>, \<^verbatim>\<open>rollback_to_commit\<close>, \<^verbatim>\<open>compare_commits\<close>,
  \<^verbatim>\<open>create_branch\<close>, \<^verbatim>\<open>switch_branch\<close> and \<^verbatim>\<open>list_branches\<close> return the
  not-initialized failure of the manager and leave the world as it was;
  \<^verbatim>\<open>get_repo_status\<close> and \<^verbatim>\<open>generate_commit_message\<close> do not fail and change
  nothing either: they return the uninitialized status and the text that there is nothing
  to describe. Only \<^verbatim>\<open>commit_all_changes\<close> initializes: it continues as
  \<^verbatim>\<open>commit_all\<close> on the directory turned into an empty repository by
  \<^verbatim>\<open>initialize\<close> without an initial commit.
\<close>

theorem tools_on_plain_directory:
  assumes "get_manager dflt rp = Inr m" "nodes w (repo_path m) = Dir wt None"
  shows "list_commits_tool dflt rp br limit w = (Inl (not_initialized (repo_path m)), w) \<and>
         rollback_to_commit dflt rp commit_sha mode w = (Inl (not_initialized (repo_path m)), w) \<and>
         compare_commits_tool dflt rp a b w = (Inl (not_initialized (repo_path m)), w) \<and>
         create_branch_tool dflt rp x from_ref w = (Inl (not_initialized (repo_path m)), w) \<and>
         switch_branch_tool dflt rp x w = (Inl (not_initialized (repo_path m)), w) \<and>
         list_branches_tool dflt rp w = (Inl (not_initialized (repo_path m)), w) \<and>
         generate_commit_message dflt rp style w = (Inr (Text ''No changes to describe''), w) \<and>
         get_repo_status (repo_path m) w =
           (Inr (StatusJson \<lparr>is_initialized = False, current_branch = None, has_changes = False,
                   staged_files = [], modified_files = [], untracked_files = []\<rparr>), w) \<and>
         commit_all_changes (repo_path m) msg w =
           text_reply (commit_all msg ((GitManager (repo_path m))\<lparr>handle := True\<rparr>)
                         (Repo_init w (repo_path m))) \<and>
         Repo (Repo_init w (repo_path m)) (repo_path m) = Inr (wt, empty_repository)"
proof -
  let ?p = "repo_path m"
  have m: "m = GitManager ?p" using assms(1) by (rule get_manager_Inr)
  have gm: "get_manager dflt rp = Inr (GitManager ?p)" using assms(1) m by simp
  note rp = repo_plain [OF assms(2)]
  have t1: "list_commits_tool dflt rp br limit w = (Inl (not_initialized ?p), w)"
    by (simp add: list_commits_tool_def gm list_commits_def rp)
  have t2: "rollback_to_commit dflt rp commit_sha mode w = (Inl (not_initialized ?p), w)"
    by (simp add: rollback_to_commit_def gm rollback_def rp)
  have t3: "compare_commits_tool dflt rp a b w = (Inl (not_initialized ?p), w)"
    by (simp add: compare_commits_tool_def gm compare_commits_def rp)
  have t4: "create_branch_tool dflt rp x from_ref w = (Inl (not_initialized ?p), w)"
    by (simp add: create_branch_tool_def gm create_branch_def rp)
  have t5: "switch_branch_tool dflt rp x w = (Inl (not_initialized ?p), w)"
    by (simp add: switch_branch_tool_def gm switch_branch_def rp)
  have t6: "list_branches_tool dflt rp w = (Inl (not_initialized ?p), w)"
    by (simp add: list_branches_tool_def gm list_branches_def rp)
  have t7: "generate_commit_message dflt rp style w = (Inr (Text ''No changes to describe''), w)"
    by (simp add: generate_commit_message_def gm get_status_plain [OF assms(2)])
  have t8: "get_repo_status ?p w =
           (Inr (StatusJson \<lparr>is_initialized = False, current_branch = None, has_changes = False,
                   staged_files = [], modified_files = [], untracked_files = []\<rparr>), w)"
    by (simp add: get_repo_status_def get_status_plain [OF assms(2)])
  have init: "initialize False (GitManager ?p) w =
                (Inr (''Initialized empty git repository at '' @ ?p),
                 (GitManager ?p)\<lparr>handle := True\<rparr>, Repo_init w ?p)"
    using assms(2) by (simp add: initialize_def Let_def is_initialized_plain)
  have t9: "commit_all_changes ?p msg w =
           text_reply (commit_all msg ((GitManager ?p)\<lparr>handle := True\<rparr>) (Repo_init w ?p))"
    by (simp add: commit_all_changes_def Let_def is_initialized_plain [OF assms(2)] init)
  have t10: "Repo (Repo_init w ?p) ?p = Inr (wt, empty_repository)"
    using assms(2) by (simp add: Repo_init_def Repo_def)
  from t1 t2 t3 t4 t5 t6 t7 t8 t9 t10 show ?thesis by blast
qed

text \<open>
  Claim C7 as stated fails for \<^verbatim>\<open>generate_commit_message\<close>: on a directory that is
  not a repository it returns a text instead of the not-initialized failure.
\<close>

theorem tools_counterexample:
  "get_manager None ''/work'' = Inr (GitManager ''/work'') \<and>
   Repo ex_world_plain ''/work'' = Inl InvalidGitRepositoryError \<and>
   generate_commit_message None ''/work'' ''conventional'' ex_world_plain =
     (Inr (Text ''No changes to describe''), ex_world_plain)"
proof -
  have n: "nodes ex_world_plain ''/work'' = Dir [(''a.txt'', ''hello'')] None"
    by (simp add: ex_world_plain_def)
  have gm: "get_manager None ''/work'' = Inr (GitManager ''/work'')"
    by (simp add: get_manager_def)
  show ?thesis
    by (simp add: gm Repo_dir_none [OF n] generate_commit_message_def get_status_plain [OF n])
qed

theorem tools_on_plain_directory_witness:
  "get_manager None ''/work'' = Inr (GitManager ''/work'') \<and>
   nodes ex_world_plain (repo_path (GitManager ''/work'')) = Dir [(''a.txt'', ''hello'')] None \<and>
   list_branches_tool None ''/work'' ex_world_plain =
     (Inl (ValueError ''Git repository not initialized at /work. Call initialize_repo first.''),
      ex_world_plain) \<and>
   rollback_to_commit None ''/work'' ''00000000000000000000000000000000000000a1'' ''hard'' ex_world_plain =
     (Inl (ValueError ''Git repository not initialized at /work. Call initialize_repo first.''),
      ex_world_plain) \<and>
   Repo (Repo_init ex_world_plain ''/work'') ''/work'' = Inr ([(''a.txt'', ''hello'')], empty_repository)"
proof -
  have n: "nodes ex_world_plain (repo_path (GitManager ''/work'')) = Dir [(''a.txt'', ''hello'')] None"
    by (simp add: ex_world_plain_def)
  have gm: "get_manager None ''/work'' = Inr (GitManager ''/work'')"
    by (simp add: get_manager_def)
  from tools_on_plain_directory [OF gm n] gm n show ?thesis
    by (simp add: not_initialized_def)
qed

section \<open>Committing everything\<close>

text \<open>
  Claim C1 at a repository without commits that holds one untracked file: the file is
  staged, and then \<^verbatim>\<open>commit_all\<close> raises \<^verbatim>\<open>BadName\<close> instead of writing the
  commit; the object store stays empty.
\<close>

theorem commit_all_unborn_example:
  "Repo ex_world_fresh ''/work'' = Inr ([(''a.txt'', ''hello'')], empty_repository) \<and>
   head_commit empty_repository = None \<and>
   repo_untracked_files [(''a.txt'', ''hello'')] empty_repository = [''a.txt''] \<and>
   commit_all ''first'' (GitManager ''/work'') ex_world_fresh =
     (Inl (BadName ''HEAD''), (GitManager ''/work'')\<lparr>handle := True\<rparr>,
      store ex_world_fresh ''/work'' [(''a.txt'', ''hello'')]
        (empty_repository\<lparr>index := [(''a.txt'', ''hello'')]\<rparr>)) \<and>
   objects (empty_repository\<lparr>index := [(''a.txt'', ''hello'')]\<rparr>) = []"
proof -
  have op: "Repo ex_world_fresh (repo_path (GitManager ''/work'')) =
              Inr ([(''a.txt'', ''hello'')], empty_repository)"
    by (simp add: Repo_def ex_world_fresh_def)
  have ob: "objects empty_repository = []" by (simp add: empty_repository_def)
  have ut: "repo_untracked_files [(''a.txt'', ''hello'')] empty_repository = [''a.txt'']"
    by (simp add: repo_untracked_files_def empty_repository_def)
  from commit_all_unborn [OF op ob, of "''first''"] op ob ut head_commit_no_objects [OF ob]
  show ?thesis by simp
qed

lemma store_store: "store (store w p a b) p c d = store w p c d"
  by (simp add: store_def)

lemma untracked_after_add: "repo_untracked_files wt (git_add_A wt r) = []"
proof -
  have "map_of wt p \<noteq> None" if "p \<in> fst ` set wt" for p
    using that by (simp add: map_of_eq_None_iff)
  then show ?thesis
    by (auto simp: repo_untracked_files_def git_add_A_def filter_empty_conv)
qed

text \<open>
  Where HEAD resolves to a commit, \<^verbatim>\<open>commit_all\<close> stages the whole working tree
  and then either returns the text that there is nothing to commit, when the tree equals
  the tree of the head commit, writing no commit; or writes one commit of the working tree
  with the message given, on top of the head commit, and returns its id.
\<close>

theorem commit_all_with_head:
  assumes "Repo w (repo_path m) = Inr (wt, r)" "head_commit r = Some h"
  shows "commit_all msg m w =
     (if changed_paths (commit_tree h) wt = []
      then (Inr ''No changes to commit'', m\<lparr>handle := True\<rparr>,
            store w (repo_path m) wt (r\<lparr>index := wt\<rparr>))
      else (Inr (fresh_sha r), m\<lparr>handle := True\<rparr>,
            store w (repo_path m) wt
              (set_head_target (fresh_sha r)
                 (r\<lparr>index := wt,
                    objects := objects r @
                      [\<lparr>hexsha = fresh_sha r, commit_message = msg, commit_tree = wt,
                        parent = Some (hexsha h), actor_name = user_name w,
                        actor_email = user_email w, committed_date = clock w\<rparr>]\<rparr>))))"
proof -
  have "lookup_commit (git_add_A wt r) = lookup_commit r"
    by (rule ext) (simp add: lookup_commit_def git_add_A_def)
  moreover have "head_sha (git_add_A wt r) = head_sha r"
    by (simp add: head_sha_def git_add_A_def split: head_ref.splits)
  ultimately have hc: "head_commit (git_add_A wt r) = Some h"
    using assms(2) by (simp add: head_commit_def split: option.splits)
  have st: "index_diff_HEAD (git_add_A wt r) = Inr (changed_paths (commit_tree h) wt)"
    by (simp add: index_diff_HEAD_def rev_parse_def hc) (simp add: git_add_A_def)
  have ic: "index_commit msg (store w (repo_path m) wt (git_add_A wt r)) (git_add_A wt r) =
      Inr (\<lparr>hexsha = fresh_sha r, commit_message = msg, commit_tree = wt,
                        parent = Some (hexsha h), actor_name = user_name w,
                        actor_email = user_email w, committed_date = clock w\<rparr>,
           set_head_target (fresh_sha r)
                 (r\<lparr>index := wt,
                    objects := objects r @
                      [\<lparr>hexsha = fresh_sha r, commit_message = msg, commit_tree = wt,
                        parent = Some (hexsha h), actor_name = user_name w,
                        actor_email = user_email w, committed_date = clock w\<rparr>]\<rparr>))"
    by (simp add: index_commit_def hc Let_def) (simp add: git_add_A_def fresh_sha_def store_def)
  show ?thesis
    by (simp add: commit_all_def repo_opened [OF assms(1)] Let_def st untracked_after_add ic store_store)
       (simp add: git_add_A_def)
qed

theorem commit_all_with_head_witness:
  "Repo ex_world_repo (repo_path (GitManager ''/work'')) = Inr ([(''a.txt'', ''hello'')], ex_repo) \<and>
   head_commit ex_repo = Some ex_commit \<and>
   commit_all ''again'' (GitManager ''/work'') ex_world_repo =
     (Inr ''No changes to commit'', (GitManager ''/work'')\<lparr>handle := True\<rparr>,
      store ex_world_repo ''/work'' [(''a.txt'', ''hello'')] (ex_repo\<lparr>index := [(''a.txt'', ''hello'')]\<rparr>))"
proof -
  have op: "Repo ex_world_repo (repo_path (GitManager ''/work'')) = Inr ([(''a.txt'', ''hello'')], ex_repo)"
    by (simp add: Repo_def ex_world_repo_def)
  have hc: "head_commit ex_repo = Some ex_commit"
    by (simp add: head_commit_def head_sha_def lookup_commit_def ex_repo_def ex_commit_def)
  have same: "changed_paths (commit_tree ex_commit) [(''a.txt'', ''hello'')] = []"
    by (simp add: changed_paths_def ex_commit_def)
  from commit_all_with_head [OF op hc, of "''again''"] same op hc show ?thesis by simp
qed

section \<open>Paths that are not repositories\<close>

text \<open>
  Claim C2 at a path that does not exist: \<^verbatim>\<open>is_initialized\<close> and
  \<^verbatim>\<open>get_status\<close> raise \<^verbatim>\<open>NoSuchPathError\<close>, which the handler for
  \<^verbatim>\<open>InvalidGitRepositoryError\<close> does not catch.
\<close>

theorem missing_path_example:
  "nodes ex_world_none ''/missing'' = NoPath \<and>
   GitManager_is_initialized (GitManager ''/missing'') ex_world_none = Inl NoSuchPathError \<and>
   get_status (GitManager ''/missing'') ex_world_none =
     (Inl NoSuchPathError, GitManager ''/missing'', ex_world_none)"
  by (simp add: ex_world_none_def GitManager_is_initialized_def get_status_def Repo_def)

theorem missing_path_example_witness:
  "Repo ex_world_none ''/missing'' = Inl NoSuchPathError \<and>
   fst (get_status (GitManager ''/missing'') ex_world_none) = Inl NoSuchPathError"
  using missing_path_example by (simp add: Repo_def)

text \<open>
  On an existing directory that holds no repository, \<^verbatim>\<open>is_initialized\<close> is false
  and \<^verbatim>\<open>get_status\<close> returns the uninitialized status with empty lists, without
  setting the handle.
\<close>

theorem status_on_plain_directory:
  assumes "nodes w p = Dir wt None"
  shows "GitManager_is_initialized (GitManager p) w = Inr False \<and>
         get_status (GitManager p) w =
           (Inr \<lparr>is_initialized = False, current_branch = None, has_changes = False,
                 staged_files = [], modified_files = [], untracked_files = []\<rparr>, GitManager p, w)"
  using assms by (simp add: is_initialized_plain get_status_plain)

theorem status_on_plain_directory_witness:
  "nodes ex_world_plain ''/work'' = Dir [(''a.txt'', ''hello'')] None \<and>
   GitManager_is_initialized (GitManager ''/work'') ex_world_plain = Inr False \<and>
   fst (get_status (GitManager ''/work'') ex_world_plain) =
     Inr \<lparr>is_initialized = False, current_branch = None, has_changes = False,
          staged_files = [], modified_files = [], untracked_files = []\<rparr>"
proof -
  have n: "nodes ex_world_plain ''/work'' = Dir [(''a.txt'', ''hello'')] None"
    by (simp add: ex_world_plain_def)
  from status_on_plain_directory [OF n] n show ?thesis by simp
qed

end
